theory Spec2Isabelle
  imports Complex_Main "HOL-Library.Multiset"
begin

section \<open>Python strings\<close>

text \<open>
  A Python \<open>str\<close> is modelled as a \<open>string\<close>, one \<open>char\<close> per code point; the model
  covers the code points below 256.  The functions below are the string methods the
  source calls.
\<close>

text \<open>\<open>needle in haystack\<close>: the prefix test at every position of the haystack.\<close>

fun str_startswith :: "string \<Rightarrow> string \<Rightarrow> bool" where
  "str_startswith s [] = True"
| "str_startswith [] (p # ps) = False"
| "str_startswith (c # cs) (p # ps) = (c = p \<and> str_startswith cs ps)"

fun str_in :: "string \<Rightarrow> string \<Rightarrow> bool" where
  "str_in needle [] = (needle = [])"
| "str_in needle (c # cs) = (str_startswith (c # cs) needle \<or> str_in needle cs)"

text \<open>
  The characters \<open>str.split()\<close> and \<open>str.strip()\<close> treat as whitespace: TAB, LF, VT, FF,
  CR, FS, GS, RS, US, SPACE, NEL and NBSP.
\<close>

definition is_space :: "char \<Rightarrow> bool" where
  "is_space c = ((of_char c :: nat) \<in> set [9, 10, 11, 12, 13, 28, 29, 30, 31, 32, 133, 160])"

text \<open>\<open>s.split()\<close>: the maximal runs of non-whitespace characters, left to right.\<close>

fun split_from :: "string \<Rightarrow> string \<Rightarrow> string list" where
  "split_from cur [] = (if cur = [] then [] else [cur])"
| "split_from cur (c # cs) =
     (if is_space c then (if cur = [] then split_from [] cs else cur # split_from [] cs)
      else split_from (cur @ [c]) cs)"

definition str_split :: "string \<Rightarrow> string list" where
  "str_split s = split_from [] s"

definition str_strip :: "string \<Rightarrow> string" where
  "str_strip s = rev (dropWhile is_space (rev (dropWhile is_space s)))"

text \<open>\<open>s.lower()\<close>: A-Z and the upper-case letters of Latin-1 move up by 32.\<close>

definition char_lower :: "char \<Rightarrow> char" where
  "char_lower c =
     (let n = (of_char c :: nat)
      in if (65 \<le> n \<and> n \<le> 90) \<or> (192 \<le> n \<and> n \<le> 222 \<and> n \<noteq> 215)
         then char_of (n + 32) else c)"

definition str_lower :: "string \<Rightarrow> string" where
  "str_lower s = map char_lower s"

text \<open>\<open>str(n)\<close> for an integer: decimal digits, with a minus sign below zero.\<close>

fun digits_of :: "nat \<Rightarrow> string" where
  "digits_of n =
     (if n < 10 then [char_of (48 + n)]
      else digits_of (n div 10) @ [char_of (48 + n mod 10)])"

declare digits_of.simps [simp del]

definition str_of_int :: "int \<Rightarrow> string" where
  "str_of_int i = (if i < 0 then CHR ''-'' # digits_of (nat (- i)) else digits_of (nat i))"


section \<open>The command gate: \<open>BashExecutor._is_command_allowed\<close>\<close>

text \<open>
  \<open>allowed_commands\<close> and \<open>denied_commands\<close> are Python sets.  Each is modelled by the
  list of its elements in the order the set iterates them; the source fixes no such
  order, so every statement about the gate is made for an arbitrary list.
\<close>

record BashExecutor =
  default_timeout :: int
  allowed_commands :: "string list"
  denied_commands :: "string list"

definition default_denied :: "string list" where
  "default_denied = [''rm -rf /'', ''sudo rm'', ''mkfs'', ''dd if='', '':(){:|:&};:'']"

text \<open>
  \<open>BashExecutor.__init__\<close>: \<open>None\<close> and the empty list both select the default
  (\<open>x or default\<close>); \<open>set(...)\<close> drops duplicates.
\<close>

definition BashExecutor_init ::
  "int \<Rightarrow> string list option \<Rightarrow> string list option \<Rightarrow> BashExecutor" where
  "BashExecutor_init timeout allowed denied =
     \<lparr> default_timeout = timeout,
       allowed_commands = remdups (case allowed of None \<Rightarrow> [] | Some xs \<Rightarrow> xs),
       denied_commands =
         remdups (case denied of None \<Rightarrow> default_denied
                  | Some xs \<Rightarrow> if xs = [] then default_denied else xs) \<rparr>"

text \<open>The loop over \<open>self.denied_commands\<close>: the first pattern contained in the command.\<close>

fun first_denied :: "string list \<Rightarrow> string \<Rightarrow> string option" where
  "first_denied [] command = None"
| "first_denied (denied # rest) command =
     (if str_in denied command then Some denied else first_denied rest command)"

text \<open>
  \<open>command.split()[0] if command.strip() else ""\<close>.  The index is in range whenever
  the guard holds (lemma \<open>split_nonempty\<close> below), so no \<open>IndexError\<close> branch exists.
\<close>

definition command_name_of :: "string \<Rightarrow> string" where
  "command_name_of command =
     (if str_strip command \<noteq> [] then
        (case str_split command of w # ws \<Rightarrow> w | [] \<Rightarrow> [])
      else [])"

definition is_command_allowed :: "BashExecutor \<Rightarrow> string \<Rightarrow> bool \<times> string option" where
  "is_command_allowed self command =
     (case first_denied (denied_commands self) command of
        Some denied \<Rightarrow> (False, Some (''Denied command pattern: '' @ denied))
      | None \<Rightarrow>
          if allowed_commands self \<noteq> [] then
            (let command_name = command_name_of command
             in if command_name \<notin> set (allowed_commands self)
                then (False, Some (''Command not in allowed list: '' @ command_name))
                else (True, None))
          else (True, None))"


text \<open>
  The leading token of a command, stated directly: skip the leading whitespace and take
  the characters up to the next whitespace.  \<open>command_name_of\<close> computes it (lemma
  \<open>command_name_of_leading_token\<close>).
\<close>

definition leading_token :: "string \<Rightarrow> string" where
  "leading_token s = takeWhile (\<lambda>c. \<not> is_space c) (dropWhile is_space s)"


section \<open>The process runners: \<open>BashExecutor.execute\<close> and \<open>PythonExecutor.execute\<close>\<close>

text \<open>
  An exception carries its \<open>str(e)\<close>.  The source distinguishes three kinds:
  \<open>TimeoutError\<close>, which \<open>except asyncio.TimeoutError\<close> catches (on CPython 3.11
  \<open>asyncio.TimeoutError\<close> is the built-in \<open>TimeoutError\<close>, a subclass of \<open>OSError\<close>); the
  other classes derived from \<open>Exception\<close>, which \<open>except Exception\<close> catches; and the
  classes outside \<open>Exception\<close> (\<open>KeyboardInterrupt\<close>, \<open>SystemExit\<close>,
  \<open>asyncio.CancelledError\<close>), which only a bare \<open>except:\<close> catches.
\<close>

datatype py_exc = PyTimeoutError string | PyException string | PyBaseException string

definition str_of_exc :: "py_exc \<Rightarrow> string" where
  "str_of_exc e =
     (case e of PyTimeoutError msg \<Rightarrow> msg | PyException msg \<Rightarrow> msg
      | PyBaseException msg \<Rightarrow> msg)"

definition is_Exception :: "py_exc \<Rightarrow> bool" where
  "is_Exception e =
     (case e of PyTimeoutError msg \<Rightarrow> True | PyException msg \<Rightarrow> True
      | PyBaseException msg \<Rightarrow> False)"

datatype 'a outcome = Returns 'a | Raises py_exc

text \<open>
  What \<open>await asyncio.wait_for(process.communicate(), timeout)\<close> does: it returns with the
  exit code and the decoded stdout and stderr, the bound expires (\<open>asyncio.TimeoutError\<close>),
  or it raises something of its own.
\<close>

datatype communicate_outcome =
  Completed int string string | TimedOut | CommRaises py_exc

text \<open>
  How a call ends without a value: an exception leaves it, or it never returns.
\<close>

datatype no_result = Raised py_exc | Hangs

text \<open>
  The operating system as one invocation meets it: the two readings of \<open>time.time()\<close>
  (on entry and when the result is built), the two readings of \<open>datetime.now()\<close> of the
  coordinator, and the outcome of each call that leaves the program.
  \<^item> \<open>Path(working_dir).exists()\<close> raises for the directories listed in \<open>failing_dirs\<close>
    (a name too long, no search permission) and otherwise tells whether the directory is
    in \<open>existing_dirs\<close>.
  \<^item> \<open>spawn\<close> is the outcome of the code between \<open>try:\<close> and the binding of \<open>process\<close>:
    \<open>create_subprocess_shell\<close>, or \<open>Path.cwd()\<close> and \<open>create_subprocess_exec\<close>.
  \<^item> \<open>await process.wait()\<close> returns, raises, or (\<open>None\<close>) never returns: it waits for
    as long as a process started by the child holds the pipes.
\<close>

type_synonym datetime = int

record world =
  time_start :: real
  time_end :: real
  now_start :: datetime
  now_end :: datetime
  existing_dirs :: "string set"
  failing_dirs :: "(string \<times> py_exc) list"
  spawn :: "unit outcome"
  communicate :: communicate_outcome
  kill :: "unit outcome"
  wait :: "unit outcome option"
  mkstemp :: "string outcome"
  unlink :: "unit outcome"
  pip_time_start :: real
  pip_time_end :: real
  pip_spawn :: "unit outcome"
  pip_communicate :: communicate_outcome

text \<open>The calls made on the outside world, in the order they are made.\<close>

datatype action =
  WriteTemp | SpawnPip "string list" | CommunicatePip
  | SpawnShell string | SpawnExec string | Communicate | Kill | Wait | Unlink string

datatype py_value = IntV int | StrV string

record ToolResult =
  success :: bool
  output' :: "string option"
  error :: "string option"
  data :: "(string \<times> py_value) list option"
  duration :: "real option"

text \<open>\<open>ToolResult(success=False, error=msg, duration=d)\<close>: the other fields default to \<open>None\<close>.\<close>

definition failure_result :: "string \<Rightarrow> real \<Rightarrow> ToolResult" where
  "failure_result msg d =
     \<lparr> success = False, output' = None, error = Some msg, data = None, duration = Some d \<rparr>"

text \<open>\<open>timeout or self.default_timeout\<close>: \<open>None\<close> and \<open>0\<close> both select the default.\<close>

definition timeout_or :: "int option \<Rightarrow> int \<Rightarrow> int" where
  "timeout_or timeout dflt =
     (case timeout of None \<Rightarrow> dflt | Some t \<Rightarrow> if t = 0 then dflt else t)"

text \<open>
  The first statement of the handler of \<open>asyncio.TimeoutError\<close>: \<open>process.kill()\<close>, then
  \<open>await process.wait()\<close>, inside \<open>try: ... except: pass\<close>.  An exception of \<open>kill\<close>
  skips \<open>wait\<close>; the bare \<open>except\<close> swallows whatever either raises.  The second
  component tells that \<open>wait\<close> never returns.
\<close>

definition kill_process :: "world \<Rightarrow> action list \<times> bool" where
  "kill_process w =
     (case kill w of
        Raises e \<Rightarrow> ([Kill], False)
      | Returns u \<Rightarrow> ([Kill, Wait], wait w = None))"

text \<open>
  The \<open>str\<close> of the \<open>UnboundLocalError\<close> for \<open>timeout_val\<close> (the wording of CPython 3.11).
\<close>

definition unbound_timeout_val :: string where
  "unbound_timeout_val =
     ''cannot access local variable '' @ [CHR 0x27] @ ''timeout_val'' @ [CHR 0x27]
       @ '' where it is not associated with a value''"

text \<open>
  The three \<open>except\<close> clauses of a runner, for an exception raised in its \<open>try\<close> block.
  \<open>timeout_val\<close> is bound once the spawn has returned, never before.  A \<open>TimeoutError\<close>
  takes the first clause wherever it comes from: when the spawn raised it, \<open>process\<close> and
  \<open>timeout_val\<close> are both unbound, the bare \<open>except\<close> swallows the error of
  \<open>process.kill()\<close>, and the error of the f-string that names \<open>timeout_val\<close> leaves the
  runner.  \<open>label\<close> is the text of the message before the bound.
\<close>

definition except_clauses ::
  "string \<Rightarrow> world \<Rightarrow> int option \<Rightarrow> py_exc \<Rightarrow> action list \<times> (no_result + ToolResult)" where
  "except_clauses label w timeout_val e =
     (case e of
        PyTimeoutError msg \<Rightarrow>
          (case timeout_val of
             None \<Rightarrow> ([], Inl (Raised (PyException unbound_timeout_val)))
           | Some tv \<Rightarrow>
               (let (acts, blocked) = kill_process w
                in if blocked then (acts, Inl Hangs)
                   else (acts,
                         Inr (failure_result (label @ str_of_int tv @ '' seconds'')
                                (time_end w - time_start w)))))
      | PyException msg \<Rightarrow>
          ([], Inr (failure_result (''Execution error: '' @ msg) (time_end w - time_start w)))
      | PyBaseException msg \<Rightarrow> ([], Inl (Raised e)))"

text \<open>The f-string of an \<open>Optional[str]\<close>.\<close>

definition fmt_optional :: "string option \<Rightarrow> string" where
  "fmt_optional x = (case x of None \<Rightarrow> ''None'' | Some s \<Rightarrow> s)"

text \<open>
  \<open>BashExecutor.execute\<close>.  The argument \<open>env_vars\<close> only builds the environment handed
  to the child process and is left out.  The gate and the check of the working
  directory stand before the \<open>try\<close>: what \<open>exists()\<close> raises leaves the runner.
\<close>

definition bash_execute ::
  "BashExecutor \<Rightarrow> world \<Rightarrow> string \<Rightarrow> string option \<Rightarrow> int option
     \<Rightarrow> action list \<times> (no_result + ToolResult)" where
  "bash_execute self w command working_dir timeout =
     (let (is_allowed, error_msg) = is_command_allowed self command;
          checked = (case working_dir of
                       None \<Rightarrow> None
                     | Some d \<Rightarrow> if d = [] then None else Some d)
      in if \<not> is_allowed then
           ([], Inr (failure_result (''Command blocked: '' @ fmt_optional error_msg)
                       (time_end w - time_start w)))
         else
           (case (case checked of None \<Rightarrow> None | Some d \<Rightarrow> map_of (failing_dirs w) d) of
              Some e \<Rightarrow> ([], Inl (Raised e))
            | None \<Rightarrow>
                if (case checked of None \<Rightarrow> False | Some d \<Rightarrow> d \<notin> existing_dirs w) then
                  ([], Inr (failure_result
                              (''Working directory does not exist: ''
                                 @ fmt_optional working_dir)
                              (time_end w - time_start w)))
                else
                  (case spawn w of
                     Raises e \<Rightarrow>
                       (let (acts, r) = except_clauses ''Command timed out after '' w None e
                        in (SpawnShell command # acts, r))
                   | Returns u \<Rightarrow>
                       (let timeout_val =
                              timeout_or timeout (BashExecutor.default_timeout self)
                        in case communicate w of
                             Completed returncode out err \<Rightarrow>
                               ([SpawnShell command, Communicate],
                                Inr \<lparr> success = (returncode = 0),
                                      output' = Some out,
                                      error = (if returncode \<noteq> 0 then Some err else None),
                                      data = Some [(''exit_code'', IntV returncode),
                                                   (''command'', StrV command)],
                                      duration = Some (time_end w - time_start w) \<rparr>)
                           | TimedOut \<Rightarrow>
                               (let (acts, r) =
                                      except_clauses ''Command timed out after '' w
                                        (Some timeout_val) (PyTimeoutError [])
                                in ([SpawnShell command, Communicate] @ acts, r))
                           | CommRaises e \<Rightarrow>
                               (let (acts, r) =
                                      except_clauses ''Command timed out after '' w
                                        (Some timeout_val) e
                                in ([SpawnShell command, Communicate] @ acts, r))))))"

record PythonExecutor =
  default_timeout :: int
  use_virtualenv :: bool
  python_path :: string

text \<open>
  \<open>PythonExecutor._install_requirements\<close>.  Its only clause is \<open>except Exception\<close>, which
  also catches the \<open>asyncio.TimeoutError\<close> of the 120 second bound, whose \<open>str\<close> is empty.
\<close>

definition install_requirements ::
  "world \<Rightarrow> string list \<Rightarrow> action list \<times> (no_result + ToolResult)" where
  "install_requirements w requirements =
     (let handler = (\<lambda>e. if is_Exception e
            then Inr (failure_result (''Failed to install requirements: '' @ str_of_exc e)
                        (pip_time_end w - pip_time_start w))
            else Inl (Raised e))
      in case pip_spawn w of
           Raises e \<Rightarrow> ([SpawnPip requirements], handler e)
         | Returns u \<Rightarrow>
             (case pip_communicate w of
                Completed returncode out err \<Rightarrow>
                  ([SpawnPip requirements, CommunicatePip],
                   Inr \<lparr> success = (returncode = 0),
                         output' = Some out,
                         error = (if returncode \<noteq> 0 then Some err else None),
                         data = None,
                         duration = Some (pip_time_end w - pip_time_start w) \<rparr>)
              | TimedOut \<Rightarrow>
                  ([SpawnPip requirements, CommunicatePip], handler (PyTimeoutError []))
              | CommRaises e \<Rightarrow>
                  ([SpawnPip requirements, CommunicatePip], handler e)))"

text \<open>
  The part of the \<open>try\<close> block of \<open>PythonExecutor.execute\<close> after the requirements are
  installed, with the \<open>except\<close> clauses.
\<close>

definition python_run_script ::
  "PythonExecutor \<Rightarrow> world \<Rightarrow> string \<Rightarrow> int option
     \<Rightarrow> action list \<times> (no_result + ToolResult)" where
  "python_run_script self w script_path timeout =
     (case spawn w of
        Raises e \<Rightarrow>
          (let (acts, r) = except_clauses ''Code execution timed out after '' w None e
           in (SpawnExec script_path # acts, r))
      | Returns u \<Rightarrow>
          (let timeout_val = timeout_or timeout (default_timeout self)
           in case communicate w of
                Completed returncode out err \<Rightarrow>
                  ([SpawnExec script_path, Communicate],
                   Inr \<lparr> success = (returncode = 0),
                         output' = Some out,
                         error = (if returncode \<noteq> 0 then Some err else None),
                         data = Some [(''exit_code'', IntV returncode)],
                         duration = Some (time_end w - time_start w) \<rparr>)
              | TimedOut \<Rightarrow>
                  (let (acts, r) =
                         except_clauses ''Code execution timed out after '' w
                           (Some timeout_val) (PyTimeoutError [])
                   in ([SpawnExec script_path, Communicate] @ acts, r))
              | CommRaises e \<Rightarrow>
                  (let (acts, r) =
                         except_clauses ''Code execution timed out after '' w
                           (Some timeout_val) e
                   in ([SpawnExec script_path, Communicate] @ acts, r))))"

text \<open>
  \<open>PythonExecutor.execute\<close>.  The temporary file is written before the \<open>try\<close>, so an
  exception there leaves the function.  The \<open>finally\<close> clause unlinks the file on every
  path that leaves the \<open>try\<close> statement and swallows what \<open>unlink\<close> raises; a run that
  never returns does not reach it.
\<close>

definition python_execute ::
  "PythonExecutor \<Rightarrow> world \<Rightarrow> string \<Rightarrow> int option \<Rightarrow> string list option
     \<Rightarrow> string option \<Rightarrow> action list \<times> (no_result + ToolResult)" where
  "python_execute self w code timeout requirements working_dir =
     (case mkstemp w of
        Raises e \<Rightarrow> ([WriteTemp], Inl (Raised e))
      | Returns script_path \<Rightarrow>
          (let (acts, res) =
             (case requirements of
                None \<Rightarrow> python_run_script self w script_path timeout
              | Some reqs \<Rightarrow>
                  if reqs = [] then python_run_script self w script_path timeout
                  else
                    (case install_requirements w reqs of
                       (pip_acts, Inl x) \<Rightarrow> (pip_acts, Inl x)
                     | (pip_acts, Inr pip_result) \<Rightarrow>
                         if \<not> success pip_result then (pip_acts, Inr pip_result)
                         else (let (run_acts, r) = python_run_script self w script_path timeout
                               in (pip_acts @ run_acts, r))))
           in if res = Inl Hangs then (WriteTemp # acts, res)
              else (WriteTemp # acts @ [Unlink script_path], res)))"


section \<open>The execution coordinator: \<open>ExecutorAgent.execute_workflow\<close>\<close>

text \<open>
  \<open>WorkflowLanguage\<close> has the members \<open>BASH\<close> and \<open>PYTHON\<close>; \<open>Unrecognized\<close> stands for
  any other value handed to \<open>execute_workflow\<close>, with its \<open>str\<close>.
\<close>

datatype WorkflowLanguage = BASH | PYTHON | Unrecognized string

datatype WorkflowStatus = PENDING | RUNNING | SUCCESS | FAILED | TIMEOUT

record ExecutionResult =
  workflow_name :: string
  status :: WorkflowStatus
  started_at :: datetime
  finished_at :: "datetime option"
  duration :: "real option"
  exit_code :: "int option"
  stdout :: "string option"
  stderr :: "string option"
  error_message :: "string option"

record ExecutorAgent =
  bash_executor :: BashExecutor
  python_executor :: PythonExecutor

text \<open>\<open>ExecutorAgent.__init__\<close>: both executors with their default arguments.\<close>

definition ExecutorAgent_init :: "string \<Rightarrow> ExecutorAgent" where
  "ExecutorAgent_init executable =
     \<lparr> bash_executor = BashExecutor_init 300 None None,
       python_executor =
         \<lparr> default_timeout = 300, use_virtualenv = False, python_path = executable \<rparr> \<rparr>"

text \<open>\<open>result.data.get("exit_code") if result.data else None\<close>.\<close>

definition exit_code_of :: "ToolResult \<Rightarrow> int option" where
  "exit_code_of result =
     (case data result of
        None \<Rightarrow> None
      | Some d \<Rightarrow> if d = [] then None
                  else (case map_of d ''exit_code'' of Some (IntV i) \<Rightarrow> Some i | _ \<Rightarrow> None))"

text \<open>The conversion of a \<open>ToolResult\<close> on the normal path.\<close>

definition to_execution_result ::
  "world \<Rightarrow> string \<Rightarrow> ToolResult \<Rightarrow> ExecutionResult" where
  "to_execution_result w name result =
     \<lparr> workflow_name = name,
       status = (if success result then SUCCESS else FAILED),
       started_at = now_start w,
       finished_at = Some (now_end w),
       duration = ToolResult.duration result,
       exit_code = exit_code_of result,
       stdout = output' result,
       stderr = error result,
       error_message = (if \<not> success result then error result else None) \<rparr>"

text \<open>\<open>ExecutionResult(workflow_name, status=FAILED, started_at, finished_at, error_message)\<close>.\<close>

definition failed_execution :: "world \<Rightarrow> string \<Rightarrow> string \<Rightarrow> ExecutionResult" where
  "failed_execution w name msg =
     \<lparr> workflow_name = name,
       status = FAILED,
       started_at = now_start w,
       finished_at = Some (now_end w),
       duration = None,
       exit_code = None,
       stdout = None,
       stderr = None,
       error_message = Some msg \<rparr>"

text \<open>
  \<open>execute_workflow\<close>.  Its \<open>except Exception\<close> catches what leaves a runner unless it
  is outside \<open>Exception\<close>; a runner that never returns keeps the coordinator waiting.
\<close>

definition execute_workflow ::
  "ExecutorAgent \<Rightarrow> world \<Rightarrow> string \<Rightarrow> string \<Rightarrow> WorkflowLanguage \<Rightarrow> int option
     \<Rightarrow> string option \<Rightarrow> action list \<times> (no_result + ExecutionResult)" where
  "execute_workflow self w name code language timeout working_dir =
     (let boundary = (\<lambda>(acts, res).
            case res of
              Inr result \<Rightarrow> (acts, Inr (to_execution_result w name result))
            | Inl Hangs \<Rightarrow> (acts, Inl Hangs)
            | Inl (Raised e) \<Rightarrow>
                if is_Exception e
                then (acts, Inr (failed_execution w name
                                   (''Execution error: '' @ str_of_exc e)))
                else (acts, Inl (Raised e)))
      in case language of
           BASH \<Rightarrow> boundary (bash_execute (bash_executor self) w code working_dir timeout)
         | PYTHON \<Rightarrow>
             boundary (python_execute (python_executor self) w code timeout None working_dir)
         | Unrecognized l \<Rightarrow>
             ([], Inr (failed_execution w name (''Unsupported language: '' @ l))))"

text \<open>
  A world in which every call succeeds and the process prints \<open>OK\<close> and exits with code
  0; the examples below vary it field by field.
\<close>

definition example_world :: world where
  "example_world =
     \<lparr> time_start = 10, time_end = 12, now_start = 1000, now_end = 1003,
       existing_dirs = {''/tmp''}, failing_dirs = [],
       spawn = Returns (), communicate = Completed 0 ''OK'' [],
       kill = Returns (), wait = Some (Returns ()),
       mkstemp = Returns ''/tmp/tmpa1.py'', unlink = Returns (),
       pip_time_start = 10, pip_time_end = 11,
       pip_spawn = Returns (), pip_communicate = Completed 0 [] [] \<rparr>"

text \<open>
  No call whose exception can leave a runner raises one outside \<open>Exception\<close>.  (What
  \<open>kill\<close>, \<open>wait\<close> and \<open>unlink\<close> raise never leaves: a bare \<open>except\<close> surrounds them.)
\<close>

definition raises_of_outcome :: "'a outcome \<Rightarrow> py_exc list" where
  "raises_of_outcome x = (case x of Returns v \<Rightarrow> [] | Raises e \<Rightarrow> [e])"

definition raises_of_communicate :: "communicate_outcome \<Rightarrow> py_exc list" where
  "raises_of_communicate x = (case x of CommRaises e \<Rightarrow> [e] | _ \<Rightarrow> [])"

definition raises_only_Exception :: "world \<Rightarrow> bool" where
  "raises_only_Exception w =
     list_all is_Exception
       (map snd (failing_dirs w)
          @ raises_of_outcome (spawn w) @ raises_of_communicate (communicate w)
          @ raises_of_outcome (mkstemp w)
          @ raises_of_outcome (pip_spawn w) @ raises_of_communicate (pip_communicate w))"


section \<open>The history store\<close>

text \<open>
  The table \<open>executions\<close> is the list of its rows in the order of their ids, each row an
  \<open>ExecutionResult\<close>.  A \<open>datetime\<close> is a point on the time line; the table stores its
  ISO text, whose order is the order of the points.  Durations are floats in the source
  and reals here: rounding is not modelled.
\<close>

type_synonym HistoryStore = "ExecutionResult list"

definition save_execution :: "HistoryStore \<Rightarrow> ExecutionResult \<Rightarrow> HistoryStore \<times> int" where
  "save_execution store result = (store @ [result], int (length store) + 1)"

text \<open>
  \<open>ORDER BY started_at DESC\<close>.  SQL leaves the order of rows with equal \<open>started_at\<close>
  open; the model keeps them in the order of their ids.
\<close>

definition order_by_started_at_desc :: "ExecutionResult list \<Rightarrow> ExecutionResult list" where
  "order_by_started_at_desc rows = sort_key (\<lambda>r. - started_at r) rows"

text \<open>\<open>LIMIT ?\<close>: a negative bound means no bound.\<close>

definition sql_limit :: "int \<Rightarrow> 'a list \<Rightarrow> 'a list" where
  "sql_limit n rows = (if n < 0 then rows else take (nat n) rows)"

text \<open>
  \<open>HistoryStore.get_executions\<close>.  \<open>if workflow_name:\<close> skips the filter for \<open>None\<close> and
  for the empty string; a \<open>WorkflowStatus\<close> is never falsy.
\<close>

definition get_executions ::
  "HistoryStore \<Rightarrow> string option \<Rightarrow> WorkflowStatus option \<Rightarrow> int \<Rightarrow> ExecutionResult list" where
  "get_executions store name st limit =
     (let rows1 = (case name of
                     None \<Rightarrow> store
                   | Some n \<Rightarrow> if n = [] then store
                               else filter (\<lambda>r. workflow_name r = n) store);
          rows2 = (case st of
                     None \<Rightarrow> rows1
                   | Some s \<Rightarrow> filter (\<lambda>r. status r = s) rows1)
      in sql_limit limit (order_by_started_at_desc rows2))"

text \<open>
  \<open>AVG\<close> of SQLite skips \<open>NULL\<close> and is \<open>NULL\<close> when nothing is left.
\<close>

definition sql_avg :: "real option list \<Rightarrow> real option" where
  "sql_avg vs =
     (let xs = concat (map (\<lambda>v. case v of None \<Rightarrow> [] | Some x \<Rightarrow> [x]) vs)
      in if xs = [] then None else Some (sum_list xs / real (length xs)))"

text \<open>
  Python's \<open>/\<close> on two integers: a zero divisor raises \<open>ZeroDivisionError\<close>.
\<close>

definition py_truediv :: "int \<Rightarrow> int \<Rightarrow> py_exc + real" where
  "py_truediv a b =
     (if b = 0 then Inl (PyException ''division by zero'')
      else Inr (real_of_int a / real_of_int b))"

record stats =
  total_executions :: int
  successful :: int
  failed :: int
  success_rate :: real
  avg_duration :: real

text \<open>
  \<open>HistoryStore.get_stats\<close>: three queries, then the dictionary.  The entry
  \<open>success_rate\<close> is \<open>(successes / total * 100) if total > 0 else 0\<close>, and
  \<open>avg_duration or 0\<close> turns \<open>None\<close> (and \<open>0.0\<close>) into \<open>0\<close>.  An exception raised while
  the dictionary is built leaves the function.
\<close>

definition get_stats :: "HistoryStore \<Rightarrow> string \<Rightarrow> py_exc + stats" where
  "get_stats store name =
     (let total = int (length (filter (\<lambda>r. workflow_name r = name) store));
          successes =
            int (length (filter (\<lambda>r. workflow_name r = name \<and> status r = SUCCESS) store));
          avg = sql_avg (map duration
                  (filter (\<lambda>r. workflow_name r = name \<and> status r = SUCCESS) store))
      in case (if total > 0
               then (case py_truediv successes total of
                       Inl e \<Rightarrow> Inl e
                     | Inr q \<Rightarrow> Inr (q * 100))
               else Inr 0) of
           Inl e \<Rightarrow> Inl e
         | Inr rate \<Rightarrow>
             Inr \<lparr> total_executions = total,
                   successful = successes,
                   failed = total - successes,
                   success_rate = rate,
                   avg_duration = (case avg of None \<Rightarrow> 0 | Some a \<Rightarrow> a) \<rparr>)"


section \<open>The pattern miner: \<open>HistoryStore.get_failure_patterns\<close>\<close>

definition extract_pattern_key :: "string \<Rightarrow> string" where
  "extract_pattern_key message =
     (let error_lower = str_lower message
      in if str_in ''timeout'' error_lower then ''timeout''
         else if str_in ''connection'' error_lower \<or> str_in ''network'' error_lower
           then ''network_error''
         else if str_in ''permission'' error_lower \<or> str_in ''denied'' error_lower
           then ''permission_error''
         else if str_in ''not found'' error_lower \<or> str_in ''404'' error_lower
           then ''not_found''
         else if str_in ''rate limit'' error_lower \<or> str_in ''429'' error_lower
           then ''rate_limit''
         else if str_in ''authentication'' error_lower \<or> str_in ''401'' error_lower
           then ''auth_error''
         else if str_in ''syntax'' error_lower then ''syntax_error''
         else if str_in ''import'' error_lower \<or> str_in ''module'' error_lower
           then ''dependency_error''
         else (case str_split message of
                 [] \<Rightarrow> ''unknown''
               | w # ws \<Rightarrow> str_lower w))"

text \<open>
  The value stored under a pattern key, a dictionary with exactly these three keys.  The
  dictionary \<open>patterns\<close> is the list of its items in insertion order, which is the order
  \<open>patterns.items()\<close> yields.
\<close>

record pattern_data =
  count :: int
  messages :: "string list"
  last_seen :: datetime

text \<open>\<open>patterns[k] = v\<close>: a present key keeps its place, a new key goes to the end.\<close>

fun dict_set :: "'k \<Rightarrow> 'v \<Rightarrow> ('k \<times> 'v) list \<Rightarrow> ('k \<times> 'v) list" where
  "dict_set k v [] = [(k, v)]"
| "dict_set k v ((k', v') # rest) =
     (if k' = k then (k, v) # rest else (k', v') # dict_set k v rest)"

text \<open>One pass of the loop over \<open>failures\<close>.\<close>

definition record_failure ::
  "(string \<times> pattern_data) list \<Rightarrow> ExecutionResult \<Rightarrow> (string \<times> pattern_data) list" where
  "record_failure patterns failure =
     (case error_message failure of
        None \<Rightarrow> patterns
      | Some msg \<Rightarrow>
          if msg = [] then patterns
          else
            (let pattern_key = extract_pattern_key msg;
                 d0 = (case map_of patterns pattern_key of
                         None \<Rightarrow> \<lparr> count = 0, messages = [], last_seen = started_at failure \<rparr>
                       | Some d \<Rightarrow> d);
                 d1 = d0 \<lparr> count := count d0 + 1, messages := messages d0 @ [msg] \<rparr>;
                 d2 = (if started_at failure > last_seen d1
                       then d1 \<lparr> last_seen := started_at failure \<rparr> else d1)
             in dict_set pattern_key d2 patterns))"

definition group_failures :: "ExecutionResult list \<Rightarrow> (string \<times> pattern_data) list" where
  "group_failures failures = foldl record_failure [] failures"

record FailurePattern =
  pattern_type :: string
  count :: int
  last_seen :: datetime
  error_messages :: "string list"
  suggested_fixes :: "string list"

definition to_failure_pattern :: "string \<times> pattern_data \<Rightarrow> FailurePattern" where
  "to_failure_pattern item =
     \<lparr> pattern_type = fst item,
       count = pattern_data.count (snd item),
       last_seen = pattern_data.last_seen (snd item),
       error_messages = take 5 (messages (snd item)),
       suggested_fixes = [] \<rparr>"

text \<open>
  \<open>sorted(result, key=lambda p: p.count, reverse=True)\<close>: Python's sort is stable, also
  with \<open>reverse=True\<close>, so patterns with equal counts keep their order.
\<close>

definition sorted_by_count_reverse :: "FailurePattern list \<Rightarrow> FailurePattern list" where
  "sorted_by_count_reverse result = sort_key (\<lambda>p. - count p) result"

definition get_failure_patterns :: "HistoryStore \<Rightarrow> string \<Rightarrow> int \<Rightarrow> FailurePattern list" where
  "get_failure_patterns store name min_count =
     (let failures = get_executions store (Some name) (Some FAILED) 50
      in if failures = [] then []
         else
           (let patterns = group_failures failures;
                result = map to_failure_pattern
                           (filter (\<lambda>item. pattern_data.count (snd item) \<ge> min_count) patterns)
            in sorted_by_count_reverse result))"





text \<open>
  The messages find_patterns groups, stated directly: the error messages of the given
  records that are present and non-empty, in the order of the records.  And the order in
  which the elements of a list are first met.
\<close>

definition message_of :: "ExecutionResult \<Rightarrow> string option" where
  "message_of r =
     (case error_message r of None \<Rightarrow> None | Some m \<Rightarrow> if m = [] then None else Some m)"

definition considered_messages :: "ExecutionResult list \<Rightarrow> string list" where
  "considered_messages failures = List.map_filter message_of failures"

definition first_seen :: "'a list \<Rightarrow> 'a list" where
  "first_seen xs = rev (remdups (rev xs))"


section \<open>Example histories\<close>

text \<open>A stored row with the given name, status, start time, duration and error message.\<close>

definition example_run ::
  "string \<Rightarrow> WorkflowStatus \<Rightarrow> datetime \<Rightarrow> real option \<Rightarrow> string option
     \<Rightarrow> ExecutionResult" where
  "example_run name st t d msg =
     \<lparr> workflow_name = name, status = st, started_at = t, finished_at = None,
       duration = d, exit_code = None, stdout = None, stderr = None,
       error_message = msg \<rparr>"

text \<open>
  Four executions of \<open>backup\<close>, three successful with durations 1, 2 and 3 seconds and
  one failed, among executions of another workflow.
\<close>

definition stats_history :: HistoryStore where
  "stats_history =
     [example_run ''backup'' SUCCESS 10 (Some 1) None,
      example_run ''deploy'' SUCCESS 11 (Some 40) None,
      example_run ''backup'' SUCCESS 20 (Some 2) None,
      example_run ''backup'' FAILED 30 (Some 9) (Some ''disk full''),
      example_run ''deploy'' FAILED 31 None (Some ''Connection refused''),
      example_run ''backup'' SUCCESS 40 (Some 3) None]"

text \<open>Executions of \<open>sync\<close> that ended in each of the five statuses.\<close>

definition status_history :: HistoryStore where
  "status_history =
     [example_run ''sync'' SUCCESS 10 (Some 1) None,
      example_run ''sync'' TIMEOUT 20 None None,
      example_run ''sync'' PENDING 30 None None,
      example_run ''sync'' RUNNING 40 None None,
      example_run ''sync'' FAILED 50 (Some 2) (Some ''boom'')]"



text \<open>
  Failures of \<open>fetch\<close> with and without a message, a success and a failure of another
  workflow among them.
\<close>

definition mining_history :: HistoryStore where
  "mining_history =
     [example_run ''fetch'' FAILED 10 None (Some ''Connection timeout''),
      example_run ''fetch'' FAILED 20 None (Some ''Permission denied''),
      example_run ''fetch'' SUCCESS 25 (Some 1) None,
      example_run ''fetch'' FAILED 30 None None,
      example_run ''deploy'' FAILED 35 None (Some ''Request timeout''),
      example_run ''fetch'' FAILED 40 None (Some []),
      example_run ''fetch'' FAILED 50 None (Some ''permission problem''),
      example_run ''fetch'' FAILED 60 None (Some ''Read timeout''),
      example_run ''fetch'' FAILED 70 None (Some ''Segfault'')]"

text \<open>
  Fifty failures of \<open>fetch\<close> with the message \<open>Connection timeout\<close>, started at the times
  1 to 50, and one later failure of \<open>fetch\<close> that carries no message.
\<close>

definition window_history :: HistoryStore where
  "window_history =
     map (\<lambda>t. example_run ''fetch'' FAILED t None (Some ''Connection timeout'')) [1..50]
       @ [example_run ''fetch'' FAILED 51 None None]"

text \<open>
  A directory name of 300 characters, longer than a file system accepts, and the
  \<open>OSError\<close> that \<open>Path.exists\<close> raises for it.
\<close>

definition long_name :: string where
  "long_name = replicate 300 (CHR ''a'')"

definition name_too_long :: py_exc where
  "name_too_long =
     PyException (''[Errno 36] File name too long: '' @ [CHR 0x27] @ long_name @ [CHR 0x27])"


section \<open>Facts about the string functions\<close>

lemma str_startswith_iff: "str_startswith s p \<longleftrightarrow> (\<exists>post. s = p @ post)"
  by (induction s p rule: str_startswith.induct) auto

lemma str_in_iff: "str_in needle hay \<longleftrightarrow> (\<exists>pre post. hay = pre @ needle @ post)"
proof (induction hay)
  case Nil
  then show ?case by auto
next
  case (Cons c cs)
  show ?case
  proof
    assume "str_in needle (c # cs)"
    then consider "str_startswith (c # cs) needle" | "str_in needle cs" by auto
    then show "\<exists>pre post. c # cs = pre @ needle @ post"
    proof cases
      case 1
      then obtain post where "c # cs = needle @ post"
        using str_startswith_iff by blast
      then have "c # cs = [] @ needle @ post" by simp
      then show ?thesis by blast
    next
      case 2
      then obtain pre post where "cs = pre @ needle @ post" using Cons.IH by blast
      then have "c # cs = (c # pre) @ needle @ post" by simp
      then show ?thesis by blast
    qed
  next
    assume "\<exists>pre post. c # cs = pre @ needle @ post"
    then obtain pre post where eq: "c # cs = pre @ needle @ post" by blast
    show "str_in needle (c # cs)"
    proof (cases pre)
      case Nil
      with eq have "str_startswith (c # cs) needle"
        using str_startswith_iff by auto
      then show ?thesis by simp
    next
      case (Cons p pre')
      with eq have "cs = pre' @ needle @ post" by simp
      then have "str_in needle cs" using Cons.IH by blast
      then show ?thesis by simp
    qed
  qed
qed

lemma first_denied_Some:
  "first_denied ds command = Some d \<Longrightarrow> d \<in> set ds \<and> str_in d command"
  by (induction ds) (auto split: if_splits)

lemma first_denied_None:
  "first_denied ds command = None \<longleftrightarrow> (\<forall>d \<in> set ds. \<not> str_in d command)"
  by (induction ds) auto

lemma split_from_skip: "split_from [] s = split_from [] (dropWhile is_space s)"
  by (induction s) auto

lemma split_from_run:
  "split_from cur s =
     (if cur @ takeWhile (\<lambda>c. \<not> is_space c) s = []
      then split_from [] (dropWhile (\<lambda>c. \<not> is_space c) s)
      else (cur @ takeWhile (\<lambda>c. \<not> is_space c) s)
             # split_from [] (dropWhile (\<lambda>c. \<not> is_space c) s))"
  by (induction s arbitrary: cur) auto

lemma dropWhile_all_iff: "(\<forall>x \<in> set (dropWhile P xs). P x) \<longleftrightarrow> (\<forall>x \<in> set xs. P x)"
proof
  assume a: "\<forall>x \<in> set (dropWhile P xs). P x"
  have "dropWhile P xs = []"
  proof (rule ccontr)
    assume ne: "dropWhile P xs \<noteq> []"
    then have "\<not> P (hd (dropWhile P xs))" by (rule hd_dropWhile)
    moreover from ne have "hd (dropWhile P xs) \<in> set (dropWhile P xs)" by simp
    ultimately show False using a by blast
  qed
  then show "\<forall>x \<in> set xs. P x" by (simp only: dropWhile_eq_Nil_conv)
next
  assume "\<forall>x \<in> set xs. P x"
  then show "\<forall>x \<in> set (dropWhile P xs). P x" by (meson set_dropWhileD)
qed


lemma str_split_some_word:
  assumes "\<not> (\<forall>c \<in> set s. is_space c)"
  shows "str_split s =
     leading_token s # str_split (dropWhile (\<lambda>c. \<not> is_space c) (dropWhile is_space s))"
proof -
  from assms have ne: "dropWhile is_space s \<noteq> []" by simp
  then obtain c cs where cs: "dropWhile is_space s = c # cs"
    by (cases "dropWhile is_space s") auto
  from ne have "\<not> is_space (hd (dropWhile is_space s))" by (rule hd_dropWhile)
  with cs have "\<not> is_space c" by simp
  then have "split_from [] (c # cs) =
      takeWhile (\<lambda>c. \<not> is_space c) (c # cs)
        # split_from [] (dropWhile (\<lambda>c. \<not> is_space c) (c # cs))"
    using split_from_run [of "[]" "c # cs"] by simp
  with cs show ?thesis
    using split_from_skip [of s] by (simp add: str_split_def leading_token_def)
qed

lemma str_strip_Nil_iff: "str_strip s = [] \<longleftrightarrow> (\<forall>c \<in> set s. is_space c)"
  by (simp add: str_strip_def dropWhile_all_iff)

lemma split_nonempty: "str_strip s \<noteq> [] \<Longrightarrow> str_split s \<noteq> []"
  using str_split_some_word [of s] by (simp add: str_strip_Nil_iff)

lemma command_name_of_leading_token: "command_name_of command = leading_token command"
proof (cases "\<forall>c \<in> set command. is_space c")
  case True
  then have d: "dropWhile is_space command = []" by simp
  have "leading_token command = []"
    unfolding leading_token_def by (simp only: d takeWhile.simps)
  with True show ?thesis
    by (simp add: command_name_of_def str_strip_Nil_iff)
next
  case False
  then show ?thesis
    using str_split_some_word [of command]
    by (simp add: command_name_of_def str_strip_Nil_iff)
qed


section \<open>Facts about the runners and the coordinator\<close>

lemma kill_process_no_Communicate: "Communicate \<notin> set (fst (kill_process w))"
  by (simp add: kill_process_def split: outcome.splits)

lemma except_clauses_no_Communicate:
  "Communicate \<notin> set (fst (except_clauses label w tv e))"
  by (simp add: except_clauses_def kill_process_def Let_def
           split: py_exc.splits option.splits outcome.splits prod.splits)

lemma except_clauses_not_success:
  "except_clauses label w tv e = (acts, Inr tr) \<Longrightarrow> \<not> success tr"
  by (auto simp: except_clauses_def kill_process_def Let_def failure_result_def
           split: py_exc.splits option.splits outcome.splits prod.splits if_splits)

lemma bash_execute_Completed:
  assumes "communicate w = Completed rc out err"
    and "Communicate \<in> set (fst (bash_execute self w command wd timeout))"
  shows "bash_execute self w command wd timeout =
           ([SpawnShell command, Communicate],
            Inr \<lparr> success = (rc = 0), output' = Some out,
                  error = (if rc \<noteq> 0 then Some err else None),
                  data = Some [(''exit_code'', IntV rc), (''command'', StrV command)],
                  duration = Some (time_end w - time_start w) \<rparr>)"
proof (cases "spawn w")
  case (Raises e)
  with assms(2) except_clauses_no_Communicate [of "''Command timed out after ''" w None e]
  show ?thesis
    by (auto simp: bash_execute_def Let_def split: prod.splits if_splits option.splits)
next
  case (Returns u)
  with assms show ?thesis
    by (auto simp: bash_execute_def Let_def split: prod.splits if_splits option.splits)
qed

lemma python_run_script_Completed:
  assumes "communicate w = Completed rc out err"
    and "Communicate \<in> set (fst (python_run_script self w p timeout))"
  shows "python_run_script self w p timeout =
           ([SpawnExec p, Communicate],
            Inr \<lparr> success = (rc = 0), output' = Some out,
                  error = (if rc \<noteq> 0 then Some err else None),
                  data = Some [(''exit_code'', IntV rc)],
                  duration = Some (time_end w - time_start w) \<rparr>)"
proof (cases "spawn w")
  case (Raises e)
  with assms(2)
    except_clauses_no_Communicate [of "''Code execution timed out after ''" w None e]
  show ?thesis by (auto simp: python_run_script_def split: prod.splits)
next
  case (Returns u)
  with assms show ?thesis by (auto simp: python_run_script_def Let_def)
qed

lemma install_requirements_no_Communicate:
  "Communicate \<notin> set (fst (install_requirements w reqs))"
  by (auto simp: install_requirements_def Let_def
           split: outcome.splits communicate_outcome.splits)

lemma python_execute_Completed:
  assumes "communicate w = Completed rc out err"
    and "Communicate \<in> set (fst (python_execute self w code timeout reqs wd))"
  shows "snd (python_execute self w code timeout reqs wd) =
            Inr \<lparr> success = (rc = 0), output' = Some out,
                  error = (if rc \<noteq> 0 then Some err else None),
                  data = Some [(''exit_code'', IntV rc)],
                  duration = Some (time_end w - time_start w) \<rparr>"
proof (cases "mkstemp w")
  case (Raises e)
  with assms(2) show ?thesis by (simp add: python_execute_def)
next
  case (Returns p)
  let ?run = "python_run_script self w p timeout"
  let ?res = "Inr \<lparr> success = (rc = 0), output' = Some out,
                  error = (if rc \<noteq> 0 then Some err else None),
                  data = Some [(''exit_code'', IntV rc)],
                  duration = Some (time_end w - time_start w) \<rparr>"
  have run: "snd ?run = ?res" if "Communicate \<in> set (fst ?run)"
    using python_run_script_Completed [OF assms(1) that] by (simp only: snd_conv)
  show ?thesis
  proof (cases "reqs = None \<or> reqs = Some []")
    case True
    with Returns assms(2) have "Communicate \<in> set (fst ?run)"
      by (auto simp: python_execute_def split: prod.splits if_splits)
    with True Returns run show ?thesis
      by (auto simp: python_execute_def split: prod.splits)
  next
    case False
    then obtain rs where rs: "reqs = Some rs" "rs \<noteq> []" by (cases reqs) auto
    obtain pa pr where pip: "install_requirements w rs = (pa, pr)"
      by (cases "install_requirements w rs")
    have nopip: "Communicate \<notin> set pa"
      using install_requirements_no_Communicate [of w rs] pip by simp
    from Returns rs pip nopip assms(2) have "Communicate \<in> set (fst ?run)"
      by (auto simp: python_execute_def split: prod.splits sum.splits if_splits)
    with Returns rs pip nopip assms(2) run show ?thesis
      by (auto simp: python_execute_def split: prod.splits sum.splits if_splits)
  qed
qed

lemma bash_execute_success_iff:
  assumes "bash_execute self w command wd timeout = (acts, Inr tr)"
  shows "success tr \<longleftrightarrow>
           Communicate \<in> set acts \<and> (\<exists>out err. communicate w = Completed 0 out err)"
proof (cases "Communicate \<in> set acts \<and> (\<exists>rc out err. communicate w = Completed rc out err)")
  case True
  then obtain rc out err where c: "communicate w = Completed rc out err" by blast
  from True assms have "Communicate \<in> set (fst (bash_execute self w command wd timeout))"
    by simp
  from bash_execute_Completed [OF c this] assms True c show ?thesis by auto
next
  case False
  with assms have "\<not> success tr"
    using except_clauses_not_success
    by (auto simp: bash_execute_def Let_def failure_result_def
             split: prod.splits if_splits outcome.splits communicate_outcome.splits
                    option.splits)
  with False show ?thesis by auto
qed

lemma python_run_script_success_iff:
  assumes "python_run_script self w p timeout = (acts, Inr tr)"
  shows "success tr \<longleftrightarrow>
           Communicate \<in> set acts \<and> (\<exists>out err. communicate w = Completed 0 out err)"
proof (cases "Communicate \<in> set acts \<and> (\<exists>rc out err. communicate w = Completed rc out err)")
  case True
  then obtain rc out err where c: "communicate w = Completed rc out err" by blast
  from True assms have "Communicate \<in> set (fst (python_run_script self w p timeout))"
    by simp
  from python_run_script_Completed [OF c this] assms True c show ?thesis by auto
next
  case False
  with assms have "\<not> success tr"
    using except_clauses_not_success
    by (auto simp: python_run_script_def Let_def
             split: prod.splits outcome.splits communicate_outcome.splits)
  with False show ?thesis by auto
qed

lemma python_execute_None_run:
  assumes "mkstemp w = Returns p"
    and "python_run_script self w p timeout = (ra, rr)"
  shows "python_execute self w code timeout None wd =
           (if rr = Inl Hangs then WriteTemp # ra else WriteTemp # ra @ [Unlink p], rr)"
  using assms by (simp add: python_execute_def)

lemma python_execute_None_success_iff:
  assumes "python_execute self w code timeout None wd = (acts, Inr tr)"
  shows "success tr \<longleftrightarrow>
           Communicate \<in> set acts \<and> (\<exists>out err. communicate w = Completed 0 out err)"
proof (cases "mkstemp w")
  case (Raises e)
  with assms show ?thesis by (simp add: python_execute_def)
next
  case (Returns p)
  obtain ra rr where run: "python_run_script self w p timeout = (ra, rr)"
    by (cases "python_run_script self w p timeout")
  from python_execute_None_run [OF Returns run] assms
  have "acts = WriteTemp # ra @ [Unlink p]" and "rr = Inr tr"
    by (auto split: if_splits)
  with run python_run_script_success_iff [of self w p timeout ra tr] show ?thesis by simp
qed

text \<open>A runner that ends without a result has not seen the process complete.\<close>

lemma except_clauses_Inl:
  "except_clauses label w tv e = (acts, Inl x) \<Longrightarrow> e \<noteq> PyException m"
  by (auto simp: except_clauses_def)

lemma bash_execute_Inl:
  assumes "bash_execute self w command wd timeout = (acts, Inl x)"
  shows "Communicate \<notin> set acts \<or> (\<forall>rc out err. communicate w \<noteq> Completed rc out err)"
proof (rule ccontr)
  assume "\<not> ?thesis"
  then obtain rc out err where c: "communicate w = Completed rc out err"
    and a: "Communicate \<in> set acts" by blast
  from a assms have "Communicate \<in> set (fst (bash_execute self w command wd timeout))"
    by simp
  from bash_execute_Completed [OF c this] assms show False by simp
qed

lemma python_execute_Inl:
  assumes "python_execute self w code timeout reqs wd = (acts, Inl x)"
  shows "Communicate \<notin> set acts \<or> (\<forall>rc out err. communicate w \<noteq> Completed rc out err)"
proof (rule ccontr)
  assume "\<not> ?thesis"
  then obtain rc out err where c: "communicate w = Completed rc out err"
    and a: "Communicate \<in> set acts" by blast
  from a assms
  have "Communicate \<in> set (fst (python_execute self w code timeout reqs wd))" by simp
  from python_execute_Completed [OF c this] assms show False by simp
qed

lemma execute_workflow_success_iff:
  assumes "execute_workflow agent w name code language timeout wd = (acts, Inr r)"
  shows "status r = SUCCESS \<longleftrightarrow>
           Communicate \<in> set acts \<and> (\<exists>out err. communicate w = Completed 0 out err)"
proof (cases language)
  case BASH
  obtain ra rr where run:
    "bash_execute (bash_executor agent) w code wd timeout = (ra, rr)"
    by (cases "bash_execute (bash_executor agent) w code wd timeout")
  show ?thesis
  proof (cases rr)
    case (Inl x)
    with run bash_execute_Inl
    have no: "Communicate \<notin> set ra \<or> (\<forall>rc out err. communicate w \<noteq> Completed rc out err)"
      by blast
    from Inl BASH run assms have "acts = ra" and "status r = FAILED"
      by (auto simp: execute_workflow_def failed_execution_def
               split: no_result.splits if_splits)
    with no show ?thesis by auto
  next
    case (Inr tr)
    with BASH run assms have "acts = ra" and "r = to_execution_result w name tr"
      by (simp_all add: execute_workflow_def)
    with Inr run bash_execute_success_iff [of "bash_executor agent" w code wd timeout ra tr]
    show ?thesis by (simp add: to_execution_result_def)
  qed
next
  case PYTHON
  obtain ra rr where run:
    "python_execute (python_executor agent) w code timeout None wd = (ra, rr)"
    by (cases "python_execute (python_executor agent) w code timeout None wd")
  show ?thesis
  proof (cases rr)
    case (Inl x)
    with run python_execute_Inl
    have no: "Communicate \<notin> set ra \<or> (\<forall>rc out err. communicate w \<noteq> Completed rc out err)"
      by blast
    from Inl PYTHON run assms have "acts = ra" and "status r = FAILED"
      by (auto simp: execute_workflow_def failed_execution_def
               split: no_result.splits if_splits)
    with no show ?thesis by auto
  next
    case (Inr tr)
    with PYTHON run assms have "acts = ra" and "r = to_execution_result w name tr"
      by (simp_all add: execute_workflow_def)
    with Inr run
      python_execute_None_success_iff [of "python_executor agent" w code timeout wd ra tr]
    show ?thesis by (simp add: to_execution_result_def)
  qed
next
  case (Unrecognized l)
  with assms show ?thesis by (auto simp: execute_workflow_def failed_execution_def)
qed


section \<open>The command gate\<close>

text \<open>
  C1.  Whenever a pattern of \<open>denied_commands\<close> occurs in the command, with any text
  \<open>pre\<close> before it and any text \<open>post\<close> after it, the gate returns \<open>allowed = False\<close>
  with the reason \<open>Denied command pattern: m\<close> for a configured pattern \<open>m\<close> that occurs
  in the command.  The verdict is the same for every allow-list put in place of the
  configured one: the deny check comes first and does not depend on the allow check.
\<close>

theorem deny_check_rejects:
  assumes "d \<in> set (denied_commands self)" and "command = pre @ d @ post"
  shows "\<exists>m \<in> set (denied_commands self). str_in m command \<and>
           is_command_allowed self command = (False, Some (''Denied command pattern: '' @ m)) \<and>
           (\<forall>a. is_command_allowed (self\<lparr>allowed_commands := a\<rparr>) command
                  = (False, Some (''Denied command pattern: '' @ m)))"
proof -
  from assms have "str_in d command" using str_in_iff by blast
  with assms(1) have "first_denied (denied_commands self) command \<noteq> None"
    using first_denied_None by blast
  then obtain m where m: "first_denied (denied_commands self) command = Some m" by blast
  then have "m \<in> set (denied_commands self)" and "str_in m command"
    using first_denied_Some by blast+
  moreover from m have "is_command_allowed self command
      = (False, Some (''Denied command pattern: '' @ m))"
    by (simp add: is_command_allowed_def)
  moreover from m have "\<forall>a. is_command_allowed (self\<lparr>allowed_commands := a\<rparr>) command
      = (False, Some (''Denied command pattern: '' @ m))"
    by (simp add: is_command_allowed_def)
  ultimately show ?thesis by blast
qed

theorem deny_check_rejects_witness:
  "''mkfs'' \<in> set (denied_commands (BashExecutor_init 300 (Some [''echo'']) None)) \<and>
   ''echo hi; mkfs /dev/sda'' = ''echo hi; '' @ ''mkfs'' @ '' /dev/sda'' \<and>
   (\<exists>m \<in> set (denied_commands (BashExecutor_init 300 (Some [''echo'']) None)).
      str_in m ''echo hi; mkfs /dev/sda'' \<and>
      is_command_allowed (BashExecutor_init 300 (Some [''echo'']) None) ''echo hi; mkfs /dev/sda''
        = (False, Some (''Denied command pattern: '' @ m)) \<and>
      (\<forall>a. is_command_allowed
              ((BashExecutor_init 300 (Some [''echo'']) None)\<lparr>allowed_commands := a\<rparr>)
              ''echo hi; mkfs /dev/sda''
            = (False, Some (''Denied command pattern: '' @ m))))"
proof -
  have h1: "''mkfs'' \<in> set (denied_commands (BashExecutor_init 300 (Some [''echo'']) None))"
    by (simp add: BashExecutor_init_def default_denied_def)
  have h2: "''echo hi; mkfs /dev/sda'' = ''echo hi; '' @ ''mkfs'' @ '' /dev/sda''" by simp
  from deny_check_rejects [OF h1 h2] h1 h2 show ?thesis by blast
qed

text \<open>
  C2, as stated, promises a reason naming the rejected program whenever the leading token
  is missing from a non-empty allow-list.  The deny check comes first: for the allow-list
  \<open>{ls}\<close> and the deny-list \<open>{mkfs}\<close> the command \<open>sudo mkfs\<close> is rejected with the
  reason of the deny check, in which the program \<open>sudo\<close> does not occur.
\<close>

theorem allow_check_reason_counterexample:
  "allowed_commands (BashExecutor_init 300 (Some [''ls'']) (Some [''mkfs''])) \<noteq> [] \<and>
   leading_token ''sudo mkfs'' = ''sudo'' \<and>
   ''sudo'' \<notin> set (allowed_commands (BashExecutor_init 300 (Some [''ls'']) (Some [''mkfs'']))) \<and>
   is_command_allowed (BashExecutor_init 300 (Some [''ls'']) (Some [''mkfs''])) ''sudo mkfs''
     = (False, Some ''Denied command pattern: mkfs'') \<and>
   is_command_allowed (BashExecutor_init 300 (Some [''ls'']) (Some [''mkfs''])) ''sudo mkfs''
     \<noteq> (False, Some (''Command not in allowed list: '' @ leading_token ''sudo mkfs'')) \<and>
   \<not> str_in ''sudo'' ''Denied command pattern: mkfs''"
  by code_simp

text \<open>
  C2, amended.  With a non-empty allow-list that lacks the leading token of the command
  the gate returns \<open>allowed = False\<close>; if moreover no deny-pattern occurs in the command,
  the reason is \<open>Command not in allowed list:\<close> followed by that token.  With the leading
  token in the allow-list and no deny-pattern in the command the gate returns
  \<open>(True, None)\<close>, and so it does with an empty allow-list and no deny-pattern in the
  command.
\<close>

theorem allow_check:
  "(allowed_commands self \<noteq> [] \<and> leading_token command \<notin> set (allowed_commands self)
      \<longrightarrow> fst (is_command_allowed self command) = False) \<and>
   (allowed_commands self \<noteq> [] \<and> leading_token command \<notin> set (allowed_commands self)
      \<and> (\<forall>d \<in> set (denied_commands self). \<not> str_in d command)
      \<longrightarrow> is_command_allowed self command
            = (False, Some (''Command not in allowed list: '' @ leading_token command))) \<and>
   (allowed_commands self \<noteq> [] \<and> leading_token command \<in> set (allowed_commands self)
      \<and> (\<forall>d \<in> set (denied_commands self). \<not> str_in d command)
      \<longrightarrow> is_command_allowed self command = (True, None)) \<and>
   (allowed_commands self = [] \<and> (\<forall>d \<in> set (denied_commands self). \<not> str_in d command)
      \<longrightarrow> is_command_allowed self command = (True, None))"
proof -
  have none: "first_denied (denied_commands self) command = None"
    if "\<forall>d \<in> set (denied_commands self). \<not> str_in d command"
    using that first_denied_None by blast
  have a: "fst (is_command_allowed self command) = False"
    if "allowed_commands self \<noteq> []" "leading_token command \<notin> set (allowed_commands self)"
    using that
    by (cases "first_denied (denied_commands self) command")
       (simp_all add: is_command_allowed_def command_name_of_leading_token)
  show ?thesis
    using a none by (simp add: is_command_allowed_def command_name_of_leading_token)
qed

theorem allow_check_witness:
  "allowed_commands (BashExecutor_init 300 (Some [''ls'', ''echo'']) None) \<noteq> [] \<and>
   leading_token ''cat /etc/passwd'' \<notin> set (allowed_commands (BashExecutor_init 300 (Some [''ls'', ''echo'']) None)) \<and>
   \<not> (\<exists>d \<in> set (denied_commands (BashExecutor_init 300 (Some [''ls'', ''echo'']) None)).
       str_in d ''cat /etc/passwd'') \<and>
   fst (is_command_allowed (BashExecutor_init 300 (Some [''ls'', ''echo'']) None) ''cat /etc/passwd'') = False \<and>
   is_command_allowed (BashExecutor_init 300 (Some [''ls'', ''echo'']) None) ''cat /etc/passwd''
     = (False, Some ''Command not in allowed list: cat'') \<and>
   leading_token ''  ls -la'' \<in> set (allowed_commands (BashExecutor_init 300 (Some [''ls'', ''echo'']) None)) \<and>
   \<not> (\<exists>d \<in> set (denied_commands (BashExecutor_init 300 (Some [''ls'', ''echo'']) None)).
       str_in d ''  ls -la'') \<and>
   is_command_allowed (BashExecutor_init 300 (Some [''ls'', ''echo'']) None) ''  ls -la'' = (True, None) \<and>
   allowed_commands (BashExecutor_init 300 None None) = [] \<and>
   \<not> (\<exists>d \<in> set (denied_commands (BashExecutor_init 300 None None)).
       str_in d ''cat /etc/passwd'') \<and>
   is_command_allowed (BashExecutor_init 300 None None) ''cat /etc/passwd'' = (True, None)"
proof -
  let ?g = "BashExecutor_init 300 (Some [''ls'', ''echo'']) None"
  let ?h = "BashExecutor_init 300 None None"
  have a1: "allowed_commands ?g \<noteq> []" by code_simp
  have t1: "leading_token ''cat /etc/passwd'' = ''cat''" by code_simp
  have a2: "leading_token ''cat /etc/passwd'' \<notin> set (allowed_commands ?g)" by code_simp
  have a3: "\<forall>d \<in> set (denied_commands ?g). \<not> str_in d ''cat /etc/passwd''" by code_simp
  have b2: "leading_token ''  ls -la'' \<in> set (allowed_commands ?g)" by code_simp
  have b3: "\<forall>d \<in> set (denied_commands ?g). \<not> str_in d ''  ls -la''" by code_simp
  have c1: "allowed_commands ?h = []" by code_simp
  have c3: "\<forall>d \<in> set (denied_commands ?h). \<not> str_in d ''cat /etc/passwd''" by code_simp
  from allow_check [of ?g "''cat /etc/passwd''"] a1 a2 a3
  have r1: "fst (is_command_allowed ?g ''cat /etc/passwd'') = False"
    and r2: "is_command_allowed ?g ''cat /etc/passwd''
       = (False, Some (''Command not in allowed list: '' @ leading_token ''cat /etc/passwd''))"
    by blast+
  from allow_check [of ?g "''  ls -la''"] a1 b2 b3
  have r3: "is_command_allowed ?g ''  ls -la'' = (True, None)" by blast
  from allow_check [of ?h "''cat /etc/passwd''"] c1 c3
  have r4: "is_command_allowed ?h ''cat /etc/passwd'' = (True, None)" by blast
  from r2 t1 have r2': "is_command_allowed ?g ''cat /etc/passwd''
       = (False, Some ''Command not in allowed list: cat'')" by simp
  from a1 a2 a3 r1 r2' b2 b3 r3 c1 c3 r4 show ?thesis by blast
qed

section \<open>The process runners\<close>

text \<open>
  C3.  Whenever a runner has awaited \<open>communicate\<close> (the action \<open>Communicate\<close> is in its
  trace) and the process completed within the timeout with exit code \<open>rc\<close>, stdout
  \<open>out\<close> and stderr \<open>err\<close>, the runner returns a \<open>ToolResult\<close> with
  \<open>success = (rc = 0)\<close>, \<open>output = out\<close>, \<open>error = err\<close> when \<open>rc\<close> is not zero and no
  \<open>error\<close> when it is zero, and the exit code in \<open>data\<close>; this holds for the shell runner
  and for the interpreter runner.  Every \<open>ExecutionResult\<close> the coordinator returns has
  status \<open>SUCCESS\<close> exactly when the process was run to completion and exited with code
  zero.
\<close>

theorem completed_run_result:
  "(communicate w = Completed rc out err \<and>
    Communicate \<in> set (fst (bash_execute self w command wd timeout)) \<longrightarrow>
      (\<exists>r. snd (bash_execute self w command wd timeout) = Inr r \<and>
           success r = (rc = 0) \<and> output' r = Some out \<and>
           error r = (if rc = 0 then None else Some err) \<and>
           exit_code_of r = Some rc)) \<and>
   (communicate w = Completed rc out err \<and>
    Communicate \<in> set (fst (python_execute pself w code timeout reqs wd)) \<longrightarrow>
      (\<exists>r. snd (python_execute pself w code timeout reqs wd) = Inr r \<and>
           success r = (rc = 0) \<and> output' r = Some out \<and>
           error r = (if rc = 0 then None else Some err) \<and>
           exit_code_of r = Some rc)) \<and>
   (execute_workflow agent w name code language timeout wd = (acts, Inr res) \<longrightarrow>
      (status res = SUCCESS \<longleftrightarrow>
         Communicate \<in> set acts \<and> (\<exists>out' err'. communicate w = Completed 0 out' err')))"
proof (intro conjI impI)
  assume a: "communicate w = Completed rc out err \<and>
    Communicate \<in> set (fst (bash_execute self w command wd timeout))"
  then have "snd (bash_execute self w command wd timeout) =
      Inr \<lparr> success = (rc = 0), output' = Some out,
            error = (if rc \<noteq> 0 then Some err else None),
            data = Some [(''exit_code'', IntV rc), (''command'', StrV command)],
            duration = Some (time_end w - time_start w) \<rparr>"
    using bash_execute_Completed [of w rc out err self command wd timeout]
    by (simp only: snd_conv)
  then show "\<exists>r. snd (bash_execute self w command wd timeout) = Inr r \<and>
           success r = (rc = 0) \<and> output' r = Some out \<and>
           error r = (if rc = 0 then None else Some err) \<and>
           exit_code_of r = Some rc"
    by (simp add: exit_code_of_def)
next
  assume a: "communicate w = Completed rc out err \<and>
    Communicate \<in> set (fst (python_execute pself w code timeout reqs wd))"
  then have "snd (python_execute pself w code timeout reqs wd) =
      Inr \<lparr> success = (rc = 0), output' = Some out,
            error = (if rc \<noteq> 0 then Some err else None),
            data = Some [(''exit_code'', IntV rc)],
            duration = Some (time_end w - time_start w) \<rparr>"
    using python_execute_Completed [of w rc out err pself code timeout reqs wd] by blast
  then show "\<exists>r. snd (python_execute pself w code timeout reqs wd) = Inr r \<and>
           success r = (rc = 0) \<and> output' r = Some out \<and>
           error r = (if rc = 0 then None else Some err) \<and>
           exit_code_of r = Some rc"
    by (simp add: exit_code_of_def)
next
  assume "execute_workflow agent w name code language timeout wd = (acts, Inr res)"
  then show "status res = SUCCESS \<longleftrightarrow>
         Communicate \<in> set acts \<and> (\<exists>out' err'. communicate w = Completed 0 out' err')"
    by (rule execute_workflow_success_iff)
qed


theorem completed_run_result_witness:
  "communicate example_world = Completed 0 ''OK'' [] \<and>
   Communicate \<in> set (fst (bash_execute (BashExecutor_init 300 None None) example_world
                               ''echo OK'' None None)) \<and>
   (\<exists>r. snd (bash_execute (BashExecutor_init 300 None None) example_world
                ''echo OK'' None None) = Inr r \<and>
        success r = ((0::int) = 0) \<and> output' r = Some ''OK'' \<and>
        error r = (if (0::int) = 0 then None else Some []) \<and>
        exit_code_of r = Some 0) \<and>
   Communicate \<in> set (fst (python_execute (python_executor (ExecutorAgent_init ''python3''))
                               example_world ''print(1)'' None None None)) \<and>
   (\<exists>r. snd (python_execute (python_executor (ExecutorAgent_init ''python3''))
                example_world ''print(1)'' None None None) = Inr r \<and>
        success r = ((0::int) = 0) \<and> output' r = Some ''OK'' \<and>
        error r = (if (0::int) = 0 then None else Some []) \<and>
        exit_code_of r = Some 0) \<and>
   execute_workflow (ExecutorAgent_init ''python3'') example_world ''hello'' ''print(1)''
       PYTHON None None
     = ([WriteTemp, SpawnExec ''/tmp/tmpa1.py'', Communicate, Unlink ''/tmp/tmpa1.py''],
        Inr \<lparr> workflow_name = ''hello'', status = SUCCESS, started_at = 1000,
              finished_at = Some 1003, duration = Some 2, exit_code = Some 0,
              stdout = Some ''OK'', stderr = None, error_message = None \<rparr>) \<and>
   (status \<lparr> workflow_name = ''hello'', status = SUCCESS, started_at = 1000,
              finished_at = Some 1003, duration = Some 2, exit_code = Some 0,
              stdout = Some ''OK'', stderr = None, error_message = None \<rparr> = SUCCESS
      \<longleftrightarrow> Communicate \<in> set [WriteTemp, SpawnExec ''/tmp/tmpa1.py'', Communicate,
                                Unlink ''/tmp/tmpa1.py''] \<and>
          (\<exists>out' err'. communicate example_world = Completed 0 out' err'))"
proof -
  have h1: "communicate example_world = Completed 0 ''OK'' []"
    by (simp add: example_world_def)
  have h2: "Communicate \<in> set (fst (bash_execute (BashExecutor_init 300 None None)
                example_world ''echo OK'' None None))"
    by (simp add: bash_execute_def example_world_def is_command_allowed_def
                  BashExecutor_init_def default_denied_def)
  have h3: "Communicate \<in> set (fst (python_execute
                (python_executor (ExecutorAgent_init ''python3''))
                example_world ''print(1)'' None None None))"
    by (simp add: python_execute_def python_run_script_def example_world_def)
  have h4: "execute_workflow (ExecutorAgent_init ''python3'') example_world ''hello''
       ''print(1)'' PYTHON None None
     = ([WriteTemp, SpawnExec ''/tmp/tmpa1.py'', Communicate, Unlink ''/tmp/tmpa1.py''],
        Inr \<lparr> workflow_name = ''hello'', status = SUCCESS, started_at = 1000,
              finished_at = Some 1003, duration = Some 2, exit_code = Some 0,
              stdout = Some ''OK'', stderr = None, error_message = None \<rparr>)"
    by (simp add: execute_workflow_def python_execute_def python_run_script_def
                  ExecutorAgent_init_def example_world_def to_execution_result_def
                  exit_code_of_def)
  from h1 h2 h3 h4
    completed_run_result [where w = example_world and rc = 0 and out = "''OK''"
      and err = "[]" and self = "BashExecutor_init 300 None None"
      and command = "''echo OK''" and wd = None and timeout = None
      and pself = "python_executor (ExecutorAgent_init ''python3'')"
      and code = "''print(1)''" and reqs = None
      and agent = "ExecutorAgent_init ''python3''" and name = "''hello''"
      and language = PYTHON
      and acts = "[WriteTemp, SpawnExec ''/tmp/tmpa1.py'', Communicate,
                   Unlink ''/tmp/tmpa1.py'']"
      and res = "\<lparr> workflow_name = ''hello'', status = SUCCESS, started_at = 1000,
              finished_at = Some 1003, duration = Some 2, exit_code = Some 0,
              stdout = Some ''OK'', stderr = None, error_message = None \<rparr>"]
  show ?thesis by blast
qed

lemma except_clauses_timeout:
  "except_clauses label (w\<lparr>kill := k, wait := wt\<rparr>) (Some tv) (PyTimeoutError m) =
     (Kill # (case k of Returns u \<Rightarrow> [Wait] | Raises e \<Rightarrow> []),
      if k = Returns () \<and> wt = None then Inl Hangs
      else Inr \<lparr> success = False, output' = None,
                 error = Some (label @ str_of_int tv @ '' seconds''),
                 data = None,
                 duration = Some (time_end w - time_start w) \<rparr>)"
  by (cases k) (simp_all add: except_clauses_def kill_process_def failure_result_def)

lemma timeout_or_cases:
  "timeout_or timeout dflt =
     (case timeout of None \<Rightarrow> dflt | Some t \<Rightarrow> if t = 0 then dflt else t)"
  by (simp add: timeout_or_def)

lemma bash_execute_TimedOut:
  assumes "communicate w = TimedOut"
    and "Communicate \<in> set (fst (bash_execute self w command wd timeout))"
  shows "bash_execute self (w\<lparr>kill := k, wait := wt\<rparr>) command wd timeout =
           ([SpawnShell command, Communicate, Kill]
              @ (case k of Returns u \<Rightarrow> [Wait] | Raises e \<Rightarrow> []),
            if k = Returns () \<and> wt = None then Inl Hangs
            else Inr \<lparr> success = False, output' = None,
                  error = Some (''Command timed out after ''
                    @ str_of_int (case timeout of
                                    None \<Rightarrow> BashExecutor.default_timeout self
                                  | Some t \<Rightarrow> if t = 0 then BashExecutor.default_timeout self
                                              else t)
                    @ '' seconds''),
                  data = None,
                  duration = Some (time_end w - time_start w) \<rparr>)"
proof (cases "spawn w")
  case (Raises e)
  with assms(2) except_clauses_no_Communicate [of "''Command timed out after ''" w None e]
  show ?thesis
    by (auto simp: bash_execute_def Let_def split: prod.splits if_splits option.splits)
next
  case (Returns u)
  obtain al m where g: "is_command_allowed self command = (al, m)"
    by (cases "is_command_allowed self command")
  from assms Returns g show ?thesis
    by (auto simp: bash_execute_def Let_def except_clauses_timeout timeout_or_cases
             split: if_splits option.splits)
qed

lemma python_run_script_TimedOut:
  assumes "communicate w = TimedOut"
    and "Communicate \<in> set (fst (python_run_script self w p timeout))"
  shows "python_run_script self (w\<lparr>kill := k, wait := wt\<rparr>) p timeout =
           ([SpawnExec p, Communicate, Kill]
              @ (case k of Returns u \<Rightarrow> [Wait] | Raises e \<Rightarrow> []),
            if k = Returns () \<and> wt = None then Inl Hangs
            else Inr \<lparr> success = False, output' = None,
                  error = Some (''Code execution timed out after ''
                    @ str_of_int (case timeout of
                                    None \<Rightarrow> default_timeout self
                                  | Some t \<Rightarrow> if t = 0 then default_timeout self else t)
                    @ '' seconds''),
                  data = None,
                  duration = Some (time_end w - time_start w) \<rparr>)"
proof (cases "spawn w")
  case (Raises e)
  with assms(2)
    except_clauses_no_Communicate [of "''Code execution timed out after ''" w None e]
  show ?thesis by (auto simp: python_run_script_def split: prod.splits)
next
  case (Returns u)
  with assms show ?thesis
    by (auto simp: python_run_script_def Let_def failure_result_def kill_process_def
                   except_clauses_def timeout_or_def
             split: outcome.splits option.splits)
qed

lemma install_requirements_kill_wait:
  "install_requirements (w\<lparr>kill := k, wait := wt\<rparr>) reqs = install_requirements w reqs"
  by (simp add: install_requirements_def Let_def
           split: outcome.splits communicate_outcome.splits)

lemma python_execute_TimedOut:
  assumes "communicate w = TimedOut"
    and "Communicate \<in> set (fst (python_execute self w code timeout reqs wd))"
  shows "\<exists>pre p. mkstemp w = Returns p \<and>
           python_execute self (w\<lparr>kill := k, wait := wt\<rparr>) code timeout reqs wd =
             (if k = Returns () \<and> wt = None
              then (pre @ [Communicate, Kill, Wait], Inl Hangs)
              else (pre @ [Communicate, Kill]
                      @ (case k of Returns u \<Rightarrow> [Wait] | Raises e \<Rightarrow> []) @ [Unlink p],
                    Inr \<lparr> success = False, output' = None,
                      error = Some (''Code execution timed out after ''
                        @ str_of_int (case timeout of
                                        None \<Rightarrow> default_timeout self
                                      | Some t \<Rightarrow> if t = 0 then default_timeout self else t)
                        @ '' seconds''),
                      data = None,
                      duration = Some (time_end w - time_start w) \<rparr>))"
proof (cases "mkstemp w")
  case (Raises e)
  with assms(2) show ?thesis by (simp add: python_execute_def)
next
  case (Returns p)
  let ?w = "w\<lparr>kill := k, wait := wt\<rparr>"
  let ?tail = "case k of Returns u \<Rightarrow> [Wait] | Raises e \<Rightarrow> []"
  let ?res = "Inr \<lparr> success = False, output' = None,
                  error = Some (''Code execution timed out after ''
                    @ str_of_int (case timeout of
                                    None \<Rightarrow> default_timeout self
                                  | Some t \<Rightarrow> if t = 0 then default_timeout self else t)
                    @ '' seconds''),
                  data = None,
                  duration = Some (time_end w - time_start w) \<rparr>"
  let ?hang = "k = Returns () \<and> wt = None"
  have run: "python_run_script self ?w p timeout
               = ([SpawnExec p, Communicate, Kill] @ ?tail,
                  if ?hang then Inl Hangs else ?res)"
    if "Communicate \<in> set (fst (python_run_script self w p timeout))"
    using python_run_script_TimedOut [OF assms(1) that] .
  show ?thesis
  proof (cases "reqs = None \<or> reqs = Some []")
    case True
    with Returns assms(2) have "Communicate \<in> set (fst (python_run_script self w p timeout))"
      by (auto simp: python_execute_def split: prod.splits if_splits)
    from run [OF this] True Returns
    have "python_execute self ?w code timeout reqs wd
            = (if ?hang then ([WriteTemp, SpawnExec p] @ [Communicate, Kill, Wait], Inl Hangs)
               else ([WriteTemp, SpawnExec p] @ [Communicate, Kill] @ ?tail @ [Unlink p], ?res))"
      by (auto simp: python_execute_def)
    with Returns show ?thesis by blast
  next
    case False
    then obtain rs where rs: "reqs = Some rs" "rs \<noteq> []" by (cases reqs) auto
    obtain pa pr where pip: "install_requirements w rs = (pa, pr)"
      by (cases "install_requirements w rs")
    have nopip: "Communicate \<notin> set pa"
      using install_requirements_no_Communicate [of w rs] pip by simp
    from Returns rs pip nopip assms(2)
    have c: "Communicate \<in> set (fst (python_run_script self w p timeout))"
      and ok: "\<exists>tr. pr = Inr tr \<and> success tr"
      by (auto simp: python_execute_def split: prod.splits sum.splits if_splits)
    from ok obtain tr where tr: "pr = Inr tr" "success tr" by blast
    from run [OF c] Returns rs pip tr
    have "python_execute self ?w code timeout reqs wd
            = (if ?hang
               then ((WriteTemp # pa @ [SpawnExec p]) @ [Communicate, Kill, Wait], Inl Hangs)
               else ((WriteTemp # pa @ [SpawnExec p]) @ [Communicate, Kill] @ ?tail
                       @ [Unlink p], ?res))"
      by (auto simp: python_execute_def install_requirements_kill_wait)
    with Returns show ?thesis by blast
  qed
qed


text \<open>
  C4, as stated, has the error message name the elapsed duration and has the timeout
  result always returned.  The message names the bound only: a command that times out
  after 5 seconds gets the same message whether 2 or 7 seconds were measured, and the
  measured time is in the field \<open>duration\<close>.  And when \<open>kill\<close> has returned and the await
  of \<open>wait\<close> does not return, the runner returns nothing.
\<close>

theorem timeout_result_counterexample:
  "bash_execute (BashExecutor_init 300 None None)
       (example_world\<lparr>communicate := TimedOut\<rparr>) ''sleep 10'' None (Some 5)
     = ([SpawnShell ''sleep 10'', Communicate, Kill, Wait],
        Inr \<lparr> success = False, output' = None,
              error = Some ''Command timed out after 5 seconds'',
              data = None, duration = Some 2 \<rparr>) \<and>
   bash_execute (BashExecutor_init 300 None None)
       (example_world\<lparr>communicate := TimedOut, time_end := 17\<rparr>) ''sleep 10'' None (Some 5)
     = ([SpawnShell ''sleep 10'', Communicate, Kill, Wait],
        Inr \<lparr> success = False, output' = None,
              error = Some ''Command timed out after 5 seconds'',
              data = None, duration = Some 7 \<rparr>) \<and>
   bash_execute (BashExecutor_init 300 None None)
       (example_world\<lparr>communicate := TimedOut, wait := None\<rparr>) ''sleep 10'' None (Some 5)
     = ([SpawnShell ''sleep 10'', Communicate, Kill, Wait], Inl Hangs)"
proof -
  have msg: "str_of_int 5 = ''5''" by code_simp
  show ?thesis
    by (simp add: bash_execute_def example_world_def is_command_allowed_def
                  BashExecutor_init_def default_denied_def kill_process_def
                  except_clauses_def failure_result_def timeout_or_def msg)
qed

text \<open>
  C4, amended.  When the wait for the process exceeds its bound, the runner calls \<open>kill\<close>
  on the process and, unless \<open>kill\<close> itself raised, awaits \<open>wait\<close>.  Unless that await
  never returns, the runner returns the same \<open>ToolResult\<close> whatever \<open>kill\<close> and \<open>wait\<close>
  do (return, or raise any exception): \<open>success = False\<close>, an error message that names
  the bound in force (the \<open>timeout\<close> argument, or the default when it is \<open>None\<close> or \<open>0\<close>)
  and nothing else, and the elapsed time in \<open>duration\<close>.  The interpreter runner does
  the same and then unlinks its temporary file.  When \<open>kill\<close> returned and the await of
  \<open>wait\<close> never returns, neither runner returns.
\<close>

theorem timeout_result:
  assumes "communicate w = TimedOut"
  shows
    "(Communicate \<in> set (fst (bash_execute self w command wd timeout)) \<longrightarrow>
        (\<forall>k wt. bash_execute self (w\<lparr>kill := k, wait := wt\<rparr>) command wd timeout =
           ([SpawnShell command, Communicate, Kill]
              @ (case k of Returns u \<Rightarrow> [Wait] | Raises e \<Rightarrow> []),
            if k = Returns () \<and> wt = None then Inl Hangs
            else Inr \<lparr> success = False, output' = None,
                  error = Some (''Command timed out after ''
                    @ str_of_int (case timeout of
                                    None \<Rightarrow> BashExecutor.default_timeout self
                                  | Some t \<Rightarrow> if t = 0 then BashExecutor.default_timeout self
                                              else t)
                    @ '' seconds''),
                  data = None,
                  duration = Some (time_end w - time_start w) \<rparr>))) \<and>
     (Communicate \<in> set (fst (python_execute pself w code timeout reqs wd)) \<longrightarrow>
        (\<forall>k wt. \<exists>pre p. mkstemp w = Returns p \<and>
           python_execute pself (w\<lparr>kill := k, wait := wt\<rparr>) code timeout reqs wd =
             (if k = Returns () \<and> wt = None
              then (pre @ [Communicate, Kill, Wait], Inl Hangs)
              else (pre @ [Communicate, Kill]
                      @ (case k of Returns u \<Rightarrow> [Wait] | Raises e \<Rightarrow> []) @ [Unlink p],
                    Inr \<lparr> success = False, output' = None,
                      error = Some (''Code execution timed out after ''
                        @ str_of_int (case timeout of
                                        None \<Rightarrow> default_timeout pself
                                      | Some t \<Rightarrow> if t = 0 then default_timeout pself else t)
                        @ '' seconds''),
                      data = None,
                      duration = Some (time_end w - time_start w) \<rparr>))))"
  using bash_execute_TimedOut [OF assms] python_execute_TimedOut [OF assms] by blast


theorem timeout_result_witness:
  "communicate (example_world\<lparr>communicate := TimedOut\<rparr>) = TimedOut \<and>
   Communicate \<in> set (fst (bash_execute (BashExecutor_init 300 None None)
       (example_world\<lparr>communicate := TimedOut\<rparr>) ''sleep 10'' None (Some 5))) \<and>
   bash_execute (BashExecutor_init 300 None None)
       (example_world\<lparr>communicate := TimedOut,
                       kill := Raises (PyException ''ProcessLookupError''),
                       wait := Some (Raises (PyBaseException []))\<rparr>)
       ''sleep 10'' None (Some 5)
     = ([SpawnShell ''sleep 10'', Communicate, Kill],
        Inr \<lparr> success = False, output' = None,
              error = Some ''Command timed out after 5 seconds'',
              data = None, duration = Some 2 \<rparr>) \<and>
   bash_execute (BashExecutor_init 300 None None)
       (example_world\<lparr>communicate := TimedOut, kill := Returns (), wait := None\<rparr>)
       ''sleep 10'' None (Some 5)
     = ([SpawnShell ''sleep 10'', Communicate, Kill, Wait], Inl Hangs) \<and>
   Communicate \<in> set (fst (python_execute (python_executor (ExecutorAgent_init ''python3''))
       (example_world\<lparr>communicate := TimedOut\<rparr>) ''print(1)'' None None None)) \<and>
   (\<exists>pre p. mkstemp (example_world\<lparr>communicate := TimedOut\<rparr>) = Returns p \<and>
      python_execute (python_executor (ExecutorAgent_init ''python3''))
             (example_world\<lparr>communicate := TimedOut, kill := Returns (),
                             wait := Some (Raises (PyException ''gone''))\<rparr>)
             ''print(1)'' None None None
        = (pre @ [Communicate, Kill, Wait, Unlink p],
           Inr \<lparr> success = False, output' = None,
                 error = Some ''Code execution timed out after 300 seconds'',
                 data = None, duration = Some 2 \<rparr>))"
proof -
  let ?w = "example_world\<lparr>communicate := TimedOut\<rparr>"
  let ?b = "BashExecutor_init 300 None None"
  let ?p = "python_executor (ExecutorAgent_init ''python3'')"
  have h1: "communicate ?w = TimedOut" by simp
  have h2: "Communicate \<in> set (fst (bash_execute ?b ?w ''sleep 10'' None (Some 5)))"
    by (simp add: bash_execute_def example_world_def is_command_allowed_def
                  BashExecutor_init_def default_denied_def kill_process_def
                  except_clauses_def)
  have h3: "Communicate \<in> set (fst (python_execute ?p ?w ''print(1)'' None None None))"
    by (simp add: python_execute_def python_run_script_def example_world_def
                  kill_process_def except_clauses_def)
  have msg: "str_of_int 5 = ''5''" by code_simp
  have pmsg: "str_of_int 300 = ''300''" by code_simp
  have d: "BashExecutor.default_timeout ?b = 300" "default_timeout ?p = 300"
    by (simp_all add: BashExecutor_init_def ExecutorAgent_init_def)
  have t: "time_end ?w - time_start ?w = 2" by (simp add: example_world_def)
  note inst = timeout_result [OF h1, where self = ?b and command = "''sleep 10''"
      and wd = None and timeout = "Some 5"]
  note pinst = timeout_result [OF h1, where pself = ?p and code = "''print(1)''"
      and wd = None and timeout = None and reqs = None]
  from inst h2
  have all: "\<forall>k wt. bash_execute ?b (?w\<lparr>kill := k, wait := wt\<rparr>) ''sleep 10'' None (Some 5)
        = ([SpawnShell ''sleep 10'', Communicate, Kill]
              @ (case k of Returns u \<Rightarrow> [Wait] | Raises e \<Rightarrow> []),
            if k = Returns () \<and> wt = None then Inl Hangs
            else Inr \<lparr> success = False, output' = None,
                  error = Some (''Command timed out after ''
                    @ str_of_int (case Some 5 of
                                    None \<Rightarrow> BashExecutor.default_timeout ?b
                                  | Some t \<Rightarrow> if t = 0 then BashExecutor.default_timeout ?b
                                              else t)
                    @ '' seconds''),
                  data = None,
                  duration = Some (time_end ?w - time_start ?w) \<rparr>)"
    by blast
  from all msg t
  have r1: "bash_execute ?b
       (example_world\<lparr>communicate := TimedOut,
                       kill := Raises (PyException ''ProcessLookupError''),
                       wait := Some (Raises (PyBaseException []))\<rparr>)
       ''sleep 10'' None (Some 5)
     = ([SpawnShell ''sleep 10'', Communicate, Kill],
        Inr \<lparr> success = False, output' = None,
              error = Some ''Command timed out after 5 seconds'',
              data = None, duration = Some 2 \<rparr>)"
    by simp
  from all
  have r2: "bash_execute ?b
       (example_world\<lparr>communicate := TimedOut, kill := Returns (), wait := None\<rparr>)
       ''sleep 10'' None (Some 5)
     = ([SpawnShell ''sleep 10'', Communicate, Kill, Wait], Inl Hangs)"
    by simp
  from pinst h3
  have "\<exists>pre p. mkstemp ?w = Returns p \<and>
      python_execute ?p (?w\<lparr>kill := Returns (), wait := Some (Raises (PyException ''gone''))\<rparr>)
             ''print(1)'' None None None
        = (if Returns () = (Returns () :: unit outcome)
              \<and> Some (Raises (PyException ''gone'')) = (None :: unit outcome option)
           then (pre @ [Communicate, Kill, Wait], Inl Hangs)
           else (pre @ [Communicate, Kill]
                   @ (case Returns () :: unit outcome of Returns u \<Rightarrow> [Wait] | Raises e \<Rightarrow> [])
                   @ [Unlink p],
                 Inr \<lparr> success = False, output' = None,
                       error = Some (''Code execution timed out after ''
                         @ str_of_int (case None of
                                         None \<Rightarrow> default_timeout ?p
                                       | Some t \<Rightarrow> if t = 0 then default_timeout ?p else t)
                         @ '' seconds''),
                       data = None, duration = Some (time_end ?w - time_start ?w) \<rparr>))"
    by blast
  with pmsg d t have r3: "\<exists>pre p. mkstemp ?w = Returns p \<and>
      python_execute ?p
             (example_world\<lparr>communicate := TimedOut, kill := Returns (),
                             wait := Some (Raises (PyException ''gone''))\<rparr>)
             ''print(1)'' None None None
        = (pre @ [Communicate, Kill, Wait, Unlink p],
           Inr \<lparr> success = False, output' = None,
                 error = Some ''Code execution timed out after 300 seconds'',
                 data = None, duration = Some 2 \<rparr>)"
    by simp
  from h1 h2 r1 r2 h3 r3 show ?thesis by (intro conjI)
qed


section \<open>Statistics\<close>

lemma sql_avg_map_filter:
  "sql_avg vs = (let xs = List.map_filter (\<lambda>v. v) vs
                 in if xs = [] then None else Some (sum_list xs / real (length xs)))"
proof -
  have "concat (map (\<lambda>v. case v of None \<Rightarrow> [] | Some x \<Rightarrow> [x]) vs)
          = List.map_filter (\<lambda>v. v) vs"
    by (induction vs) (auto simp: List.map_filter_simps split: option.splits)
  then show ?thesis by (simp add: sql_avg_def)
qed

lemma map_filter_map: "List.map_filter (\<lambda>v. v) (map f xs) = List.map_filter f xs"
  by (induction xs) (auto simp: List.map_filter_simps split: option.splits)

text \<open>\<open>get_stats\<close> never raises: the division is only reached with a positive divisor.\<close>

lemma get_stats_returns:
  "get_stats store name =
     Inr \<lparr> total_executions = int (length (filter (\<lambda>r. workflow_name r = name) store)),
           successful =
             int (length (filter (\<lambda>r. workflow_name r = name \<and> status r = SUCCESS) store)),
           failed = int (length (filter (\<lambda>r. workflow_name r = name) store))
                    - int (length (filter (\<lambda>r. workflow_name r = name \<and> status r = SUCCESS)
                                     store)),
           success_rate =
             (if filter (\<lambda>r. workflow_name r = name) store = [] then 0
              else real (length (filter (\<lambda>r. workflow_name r = name \<and> status r = SUCCESS)
                                   store))
                   / real (length (filter (\<lambda>r. workflow_name r = name) store)) * 100),
           avg_duration =
             (let ds = List.map_filter duration
                         (filter (\<lambda>r. workflow_name r = name \<and> status r = SUCCESS) store)
              in if ds = [] then 0 else sum_list ds / real (length ds)) \<rparr>"
  by (simp add: get_stats_def py_truediv_def sql_avg_map_filter map_filter_map Let_def)

lemma mean_of_1_2_3:
  fixes ds :: "real list"
  assumes "mset ds = {#1, 2, 3#}"
  shows "ds \<noteq> [] \<and> sum_list ds / real (length ds) = 2"
proof -
  from assms have "size (mset ds) = 3" by simp
  then have len: "length ds = 3" by simp
  from assms have "sum_mset (mset ds) = 6" by simp
  then have "sum_list ds = 6" by (simp only: sum_mset_sum_list)
  with len show ?thesis by auto
qed

text \<open>
  C7.  The stats operation returns a value for every history and workflow name: no
  exception leaves it, a division by zero in particular.  In that value
  \<open>total_executions\<close> and \<open>successful\<close> count the workflow's records and its records
  with status \<open>SUCCESS\<close>; \<open>success_rate\<close> is 0 when the total is 0 and
  \<open>successful / total_executions * 100\<close> otherwise; \<open>avg_duration\<close> is the mean of the
  durations of the workflow's records with status \<open>SUCCESS\<close> (those that have a
  duration), and 0 when there is none, so it is 0 when the workflow has no successful
  record.  Whenever the workflow has 4 records of which 3 are successful,
  \<open>success_rate\<close> is 75, and whenever the durations of its successful records are 1, 2
  and 3 seconds, \<open>avg_duration\<close> is 2.
\<close>

theorem stats_rates:
  "\<exists>s. get_stats store name = Inr s \<and>
     total_executions s = int (length (filter (\<lambda>r. workflow_name r = name) store)) \<and>
     successful s =
       int (length (filter (\<lambda>r. workflow_name r = name \<and> status r = SUCCESS) store)) \<and>
     (total_executions s = 0 \<longrightarrow> success_rate s = 0) \<and>
     (total_executions s \<noteq> 0 \<longrightarrow>
        success_rate s
          = real_of_int (successful s) / real_of_int (total_executions s) * 100) \<and>
     avg_duration s =
       (let ds = List.map_filter duration
                   (filter (\<lambda>r. workflow_name r = name \<and> status r = SUCCESS) store)
        in if ds = [] then 0 else sum_list ds / real (length ds)) \<and>
     ((\<forall>r \<in> set store. workflow_name r = name \<longrightarrow> status r \<noteq> SUCCESS) \<longrightarrow>
        avg_duration s = 0) \<and>
     (total_executions s = 4 \<and> successful s = 3 \<longrightarrow> success_rate s = 75) \<and>
     (mset (List.map_filter duration
              (filter (\<lambda>r. workflow_name r = name \<and> status r = SUCCESS) store))
        = {#1, 2, 3#} \<longrightarrow> avg_duration s = 2)"
proof -
  let ?all = "filter (\<lambda>r. workflow_name r = name) store"
  let ?ok = "filter (\<lambda>r. workflow_name r = name \<and> status r = SUCCESS) store"
  let ?ds = "List.map_filter duration ?ok"
  let ?s = "\<lparr> total_executions = int (length ?all), successful = int (length ?ok),
             failed = int (length ?all) - int (length ?ok),
             success_rate = (if ?all = [] then 0
                             else real (length ?ok) / real (length ?all) * 100),
             avg_duration = (let ds = ?ds
                             in if ds = [] then 0 else sum_list ds / real (length ds)) \<rparr>"
  have ret: "get_stats store name = Inr ?s" by (rule get_stats_returns)
  have none: "avg_duration ?s = 0"
    if "\<forall>r \<in> set store. workflow_name r = name \<longrightarrow> status r \<noteq> SUCCESS"
  proof -
    from that have "?ok = []" by (auto simp: filter_empty_conv)
    then show ?thesis by (simp add: List.map_filter_simps)
  qed
  have ex: "avg_duration ?s = 2" if "mset ?ds = {#1, 2, 3#}"
    using mean_of_1_2_3 [OF that] by (simp add: Let_def)
  have rate: "success_rate ?s = 75" if "total_executions ?s = 4 \<and> successful ?s = 3"
  proof -
    from that have "length ?all = 4" and "length ?ok = 3" by simp_all
    then show ?thesis by auto
  qed
  have "total_executions ?s = int (length ?all)" and "successful ?s = int (length ?ok)"
    and "total_executions ?s = 0 \<longrightarrow> success_rate ?s = 0"
    and "total_executions ?s \<noteq> 0 \<longrightarrow>
           success_rate ?s
             = real_of_int (successful ?s) / real_of_int (total_executions ?s) * 100"
    and "avg_duration ?s = (let ds = ?ds
                            in if ds = [] then 0 else sum_list ds / real (length ds))"
    by simp_all
  with ret none ex rate show ?thesis by blast
qed

theorem stats_rates_witness:
  "(\<exists>s. get_stats stats_history ''restore'' = Inr s \<and>
        total_executions s = 0 \<and> success_rate s = 0 \<and> avg_duration s = 0) \<and>
   \<not> (\<exists>r \<in> set stats_history. workflow_name r = ''restore'' \<and> status r = SUCCESS) \<and>
   mset (List.map_filter duration
           (filter (\<lambda>r. workflow_name r = ''backup'' \<and> status r = SUCCESS) stats_history))
     = {#1, 2, 3#} \<and>
   (\<exists>s. get_stats stats_history ''backup'' = Inr s \<and>
        total_executions s = 4 \<and> successful s = 3 \<and>
        success_rate s = 75 \<and> avg_duration s = 2)"
proof -
  have h1: "int (length (filter (\<lambda>r. workflow_name r = ''restore'') stats_history)) = 0"
    by (simp add: stats_history_def example_run_def)
  have h2: "\<forall>r \<in> set stats_history. workflow_name r = ''restore'' \<longrightarrow> status r \<noteq> SUCCESS"
    by (simp add: stats_history_def example_run_def)
  have h3: "int (length (filter (\<lambda>r. workflow_name r = ''backup'') stats_history)) = 4"
    by (simp add: stats_history_def example_run_def)
  have h4: "int (length (filter (\<lambda>r. workflow_name r = ''backup'' \<and> status r = SUCCESS)
                           stats_history)) = 3"
    by (simp add: stats_history_def example_run_def)
  have h5: "mset (List.map_filter duration
              (filter (\<lambda>r. workflow_name r = ''backup'' \<and> status r = SUCCESS) stats_history))
            = {#1, 2, 3#}"
    by (simp add: stats_history_def example_run_def List.map_filter_simps)
  from stats_rates [of stats_history "''restore''"] h1 h2
  have r1: "\<exists>s. get_stats stats_history ''restore'' = Inr s \<and>
        total_executions s = 0 \<and> success_rate s = 0 \<and> avg_duration s = 0"
    by auto
  from stats_rates [of stats_history "''backup''"] h3 h4 h5
  have r2: "\<exists>s. get_stats stats_history ''backup'' = Inr s \<and>
        total_executions s = 4 \<and> successful s = 3 \<and>
        success_rate s = 75 \<and> avg_duration s = 2"
    by auto
  from r1 h2 h5 r2 show ?thesis by blast
qed

text \<open>
  C10.  The stats operation returns a value in which \<open>failed\<close> is
  \<open>total_executions - successful\<close>, which is the number of the workflow's records whose
  status is not \<open>SUCCESS\<close>, whatever that status is; and
  \<open>total_executions = successful + failed\<close>.
\<close>

theorem stats_failed:
  "\<exists>s. get_stats store name = Inr s \<and>
     failed s = total_executions s - successful s \<and>
     failed s
       = int (length (filter (\<lambda>r. workflow_name r = name \<and> status r \<noteq> SUCCESS) store)) \<and>
     total_executions s = successful s + failed s"
proof -
  have "length (filter (\<lambda>r. workflow_name r = name) store)
          = length (filter (\<lambda>r. workflow_name r = name \<and> status r = SUCCESS) store)
            + length (filter (\<lambda>r. workflow_name r = name \<and> status r \<noteq> SUCCESS) store)"
    by (induction store) auto
  then show ?thesis by (simp add: get_stats_returns)
qed

theorem stats_failed_witness:
  "\<exists>s. get_stats status_history ''sync'' = Inr s \<and>
     total_executions s = 5 \<and> successful s = 1 \<and> failed s = 4 \<and>
     int (length (filter (\<lambda>r. workflow_name r = ''sync'' \<and> status r \<noteq> SUCCESS)
                    status_history)) = 4"
proof -
  from stats_failed [of status_history "''sync''"]
  obtain s where s: "get_stats status_history ''sync'' = Inr s"
    and f: "failed s = total_executions s - successful s"
    and n: "failed s = int (length (filter (\<lambda>r. workflow_name r = ''sync'' \<and> status r \<noteq> SUCCESS)
                    status_history))"
    by blast
  have v: "get_stats status_history ''sync'' =
             Inr \<lparr> total_executions = 5, successful = 1, failed = 4,
                   success_rate = 20, avg_duration = 1 \<rparr>"
    by (simp add: get_stats_def py_truediv_def sql_avg_def status_history_def
                  example_run_def Let_def)
  with s have "total_executions s = 5" and "successful s = 1" by auto
  with s f n show ?thesis by auto
qed


section \<open>The pattern miner\<close>





section \<open>Grouping and ranking of failures\<close>

lemma first_seen_Nil: "first_seen [] = []"
  by (simp add: first_seen_def)

lemma first_seen_snoc:
  "first_seen (xs @ [x]) = (if x \<in> set xs then first_seen xs else first_seen xs @ [x])"
  by (simp add: first_seen_def)

lemma set_first_seen: "set (first_seen xs) = set xs"
  by (simp add: first_seen_def)

lemma distinct_first_seen: "distinct (first_seen xs)"
  by (simp add: first_seen_def)

lemma considered_messages_Nil: "considered_messages [] = []"
  by (simp add: considered_messages_def List.map_filter_simps)

lemma considered_messages_snoc:
  "considered_messages (fs @ [f]) =
     considered_messages fs @ (case message_of f of None \<Rightarrow> [] | Some m \<Rightarrow> [m])"
  by (simp add: considered_messages_def List.map_filter_def split: option.splits)

lemma map_fst_dict_set:
  "map fst (dict_set k v G) = (if k \<in> set (map fst G) then map fst G else map fst G @ [k])"
  by (induction G) (force simp: image_iff)+

lemma map_of_dict_set: "map_of (dict_set k v G) = (map_of G)(k \<mapsto> v)"
  by (induction G) (auto simp: fun_eq_iff)

lemma filter_key_Nil: "k \<notin> set (map f xs) \<Longrightarrow> filter (\<lambda>x. f x = k) xs = []"
  by (induction xs) auto

lemma record_failure_None: "message_of f = None \<Longrightarrow> record_failure G f = G"
  by (auto simp: record_failure_def message_of_def split: option.splits if_splits)

lemma record_failure_Some:
  assumes "message_of f = Some m"
  shows "\<exists>d2. record_failure G f = dict_set (extract_pattern_key m) d2 G \<and>
           messages d2 =
             (case map_of G (extract_pattern_key m) of None \<Rightarrow> [] | Some d \<Rightarrow> messages d)
               @ [m] \<and>
           pattern_data.count d2 =
             (case map_of G (extract_pattern_key m) of
                None \<Rightarrow> 0 | Some d \<Rightarrow> pattern_data.count d) + 1"
proof -
  from assms have em: "error_message f = Some m" and ne: "m \<noteq> []"
    by (auto simp: message_of_def split: option.splits if_splits)
  show ?thesis
    by (cases "map_of G (extract_pattern_key m)")
       (auto simp: record_failure_def em ne Let_def)
qed

lemma group_failures_snoc:
  "group_failures (fs @ [f]) = record_failure (group_failures fs) f"
  by (simp add: group_failures_def)

lemma group_failures_keys:
  "map fst (group_failures fs) = first_seen (map extract_pattern_key (considered_messages fs))"
proof (induction fs rule: rev_induct)
  case Nil
  show ?case by (simp add: group_failures_def considered_messages_Nil first_seen_Nil)
next
  case (snoc f fs)
  show ?case
  proof (cases "message_of f")
    case None
    with snoc show ?thesis
      by (simp add: group_failures_snoc record_failure_None considered_messages_snoc)
  next
    case (Some m)
    from record_failure_Some [OF Some, of "group_failures fs"]
    obtain d2 where "record_failure (group_failures fs) f
        = dict_set (extract_pattern_key m) d2 (group_failures fs)" by blast
    with snoc Some show ?thesis
      by (simp add: group_failures_snoc considered_messages_snoc map_fst_dict_set
                    first_seen_snoc set_first_seen)
  qed
qed

lemma group_failures_data:
  "map_of (group_failures fs) k = Some d \<Longrightarrow>
     messages d = filter (\<lambda>m. extract_pattern_key m = k) (considered_messages fs) \<and>
     pattern_data.count d = int (length (messages d))"
proof (induction fs arbitrary: d k rule: rev_induct)
  case Nil
  then show ?case by (simp add: group_failures_def)
next
  case (snoc f fs)
  show ?case
  proof (cases "message_of f")
    case None
    with snoc show ?thesis
      by (simp add: group_failures_snoc record_failure_None considered_messages_snoc)
  next
    case (Some m)
    let ?G = "group_failures fs"
    let ?key = "extract_pattern_key m"
    from record_failure_Some [OF Some, of ?G]
    obtain d2 where rf: "record_failure ?G f = dict_set ?key d2 ?G"
      and m2: "messages d2 = (case map_of ?G ?key of None \<Rightarrow> [] | Some d \<Rightarrow> messages d) @ [m]"
      and c2: "pattern_data.count d2 =
                 (case map_of ?G ?key of None \<Rightarrow> 0 | Some d \<Rightarrow> pattern_data.count d) + 1"
      by blast
    from snoc.prems rf have look: "((map_of ?G)(?key \<mapsto> d2)) k = Some d"
      by (simp add: group_failures_snoc map_of_dict_set)
    show ?thesis
    proof (cases "k = ?key")
      case False
      with look have "map_of ?G k = Some d" by simp
      with snoc.IH False Some show ?thesis
        by (auto simp: considered_messages_snoc)
    next
      case True
      with look have d: "d = d2" by simp
      show ?thesis
      proof (cases "map_of ?G ?key")
        case None
        then have "?key \<notin> set (map fst ?G)" by (simp add: map_of_eq_None_iff)
        then have "?key \<notin> set (map extract_pattern_key (considered_messages fs))"
          by (simp add: group_failures_keys set_first_seen)
        then have "filter (\<lambda>m'. extract_pattern_key m' = ?key) (considered_messages fs) = []"
          by (rule filter_key_Nil)
        with None m2 c2 d True Some show ?thesis
          by (simp add: considered_messages_snoc)
      next
        case (Some d0)
        note d0 = Some
        from snoc.IH [OF d0]
        have "messages d0 = filter (\<lambda>m'. extract_pattern_key m' = ?key) (considered_messages fs)"
          and "pattern_data.count d0 = int (length (messages d0))" by blast+
        with d0 m2 c2 d True \<open>message_of f = Some m\<close> show ?thesis
          by (simp add: considered_messages_snoc)
      qed
    qed
  qed
qed

lemma map_fst_filter_agree:
  assumes "\<And>k d. (k, d) \<in> set G \<Longrightarrow> Q d = R k"
  shows "map fst (filter (\<lambda>item. Q (snd item)) G) = filter R (map fst G)"
  using assms by (induction G) force+

lemma group_failures_distinct: "distinct (map fst (group_failures fs))"
  by (simp add: group_failures_keys distinct_first_seen)

lemma group_failures_item:
  assumes "(k, d) \<in> set (group_failures fs)"
  shows "messages d = filter (\<lambda>m. extract_pattern_key m = k) (considered_messages fs) \<and>
         pattern_data.count d = int (length (messages d))"
proof -
  from assms group_failures_distinct [of fs] have "map_of (group_failures fs) k = Some d"
    by simp
  then show ?thesis by (rule group_failures_data)
qed

lemma get_executions_window:
  assumes ne: "name \<noteq> []"
  shows "get_executions store (Some name) (Some FAILED) 50 =
           take 50 (order_by_started_at_desc
                      (filter (\<lambda>r. workflow_name r = name \<and> status r = FAILED) store))"
  using assms by (simp add: get_executions_def sql_limit_def Let_def conj_commute)

lemma order_by_started_at_desc_sorted:
  "sorted_wrt (\<lambda>a b. started_at b \<le> started_at a) (order_by_started_at_desc rows)"
proof -
  have "sorted (map (\<lambda>r. - started_at r) (sort_key (\<lambda>r. - started_at r) rows))"
    by (rule sorted_sort_key)
  then show ?thesis by (simp add: order_by_started_at_desc_def sorted_map)
qed

lemma order_by_started_at_desc_mset: "mset (order_by_started_at_desc rows) = mset rows"
  by (simp add: order_by_started_at_desc_def)

lemma get_failure_patterns_eq:
  "get_failure_patterns store name min_count =
     sorted_by_count_reverse
       (map to_failure_pattern
          (filter (\<lambda>item. min_count \<le> pattern_data.count (snd item))
             (group_failures (get_executions store (Some name) (Some FAILED) 50))))"
  by (simp add: get_failure_patterns_def Let_def group_failures_def sorted_by_count_reverse_def)


lemma pattern_type_to_failure_pattern: "pattern_type (to_failure_pattern item) = fst item"
  by (simp add: to_failure_pattern_def)

lemma count_to_failure_pattern:
  "count (to_failure_pattern item) = pattern_data.count (snd item)"
  by (simp add: to_failure_pattern_def)

lemma error_messages_to_failure_pattern:
  "error_messages (to_failure_pattern item) = take 5 (messages (snd item))"
  by (simp add: to_failure_pattern_def)

lemma sorted_by_count_reverse_sorted:
  "sorted_wrt (\<lambda>a b. count b \<le> count a) (sorted_by_count_reverse ps)"
proof -
  have "sorted (map (\<lambda>p. - count p) (sort_key (\<lambda>p. - count p) ps))"
    by (rule sorted_sort_key)
  then show ?thesis by (simp add: sorted_by_count_reverse_def sorted_map)
qed

lemma sorted_by_count_reverse_stable:
  "filter (\<lambda>p. count p = c) (sorted_by_count_reverse ps) = filter (\<lambda>p. count p = c) ps"
proof -
  have "filter (\<lambda>p. - count p = - c) (sort_key (\<lambda>p. - count p) ps)
          = filter (\<lambda>p. - count p = - c) ps"
    by (rule sort_key_stable)
  then show ?thesis by (simp add: sorted_by_count_reverse_def)
qed

lemma set_sorted_by_count_reverse: "set (sorted_by_count_reverse ps) = set ps"
  by (simp add: sorted_by_count_reverse_def)

lemma mset_sorted_by_count_reverse: "mset (sorted_by_count_reverse ps) = mset ps"
  by (simp add: sorted_by_count_reverse_def)

text \<open>
  C9, as stated, has find_patterns consider the most recent 50 failed records that
  carry a non-empty error message.  The bound of 50 is applied by the query, before the
  records without a message are skipped: in a history of 50 failures with the message
  \<open>Connection timeout\<close> and one later failure without a message, all of one workflow,
  the 50 records that carry a message are not all considered, and the pattern has the
  count 49.
\<close>

theorem mined_patterns_counterexample:
  "map workflow_name window_history = replicate 51 ''fetch'' \<and>
   map status window_history = replicate 51 FAILED \<and>
   considered_messages window_history = replicate 50 ''Connection timeout'' \<and>
   get_failure_patterns window_history ''fetch'' 2 =
     [\<lparr> pattern_type = ''timeout'', count = 49, last_seen = 50,
         error_messages = [''Connection timeout'', ''Connection timeout'',
                           ''Connection timeout'', ''Connection timeout'',
                           ''Connection timeout''],
         suggested_fixes = [] \<rparr>]"
  by code_simp

text \<open>
  C9, amended: for a non-empty workflow name.  The window is the first 50 of the
  workflow's failed records in the order most recent first, with or without a message.
  The messages considered are the non-empty error messages of the window's records, in
  that order; records without one are left out.  Every pattern returned has a count of
  at least \<open>min_count\<close>, which is the number of considered messages with its label, and
  carries the first 5 of these messages in the order met.  The patterns are sorted by
  count, largest first.  For each count \<open>c\<close> the labels of the patterns with that count
  are exactly the labels that occur \<open>c\<close> times, provided \<open>c\<close> is at least \<open>min_count\<close>,
  each once and in the order the labels are first met: no label below \<open>min_count\<close> is
  kept, none at or above it is dropped, and ties keep encounter order.
\<close>

theorem mined_patterns:
  fixes store :: HistoryStore and name :: string and min_count :: int
  assumes ne: "name \<noteq> []"
  defines "window \<equiv> get_executions store (Some name) (Some FAILED) 50"
  defines "msgs \<equiv> considered_messages window"
  defines "out \<equiv> get_failure_patterns store name min_count"
  shows
    "(\<exists>recent.
        mset recent = mset (filter (\<lambda>r. workflow_name r = name \<and> status r = FAILED) store) \<and>
        sorted_wrt (\<lambda>a b. started_at b \<le> started_at a) recent \<and>
        window = take 50 recent) \<and>
     (\<forall>p \<in> set out.
        min_count \<le> count p \<and>
        count p = int (length (filter (\<lambda>m. extract_pattern_key m = pattern_type p) msgs)) \<and>
        error_messages p = take 5 (filter (\<lambda>m. extract_pattern_key m = pattern_type p) msgs)) \<and>
     sorted_wrt (\<lambda>a b. count b \<le> count a) out \<and>
     (\<forall>c. map pattern_type (filter (\<lambda>p. count p = c) out) =
           filter (\<lambda>k. int (length (filter (\<lambda>m. extract_pattern_key m = k) msgs)) = c \<and>
                       min_count \<le> c)
             (first_seen (map extract_pattern_key msgs)))"
proof -
  let ?G = "group_failures window"
  let ?F = "filter (\<lambda>item. min_count \<le> pattern_data.count (snd item)) ?G"
  let ?occ = "\<lambda>k. filter (\<lambda>m. extract_pattern_key m = k) msgs"
  have out: "out = sorted_by_count_reverse (map to_failure_pattern ?F)"
    unfolding out_def window_def by (rule get_failure_patterns_eq)
  have item: "messages d = ?occ k \<and> pattern_data.count d = int (length (?occ k))"
    if "(k, d) \<in> set ?G" for k d
    using group_failures_item [OF that] unfolding msgs_def by simp
  have w: "\<exists>recent.
        mset recent = mset (filter (\<lambda>r. workflow_name r = name \<and> status r = FAILED) store) \<and>
        sorted_wrt (\<lambda>a b. started_at b \<le> started_at a) recent \<and>
        window = take 50 recent"
    unfolding window_def get_executions_window [OF ne]
    using order_by_started_at_desc_mset order_by_started_at_desc_sorted by blast
  have p2: "\<forall>p \<in> set out.
        min_count \<le> count p \<and>
        count p = int (length (?occ (pattern_type p))) \<and>
        error_messages p = take 5 (?occ (pattern_type p))"
  proof
    fix p assume "p \<in> set out"
    then obtain k d where kd: "(k, d) \<in> set ?G" "min_count \<le> pattern_data.count d"
      and p: "p = to_failure_pattern (k, d)"
      unfolding out by (auto simp: set_sorted_by_count_reverse)
    from item [OF kd(1)] kd(2) p
    show "min_count \<le> count p \<and>
        count p = int (length (?occ (pattern_type p))) \<and>
        error_messages p = take 5 (?occ (pattern_type p))"
      by (simp add: to_failure_pattern_def)
  qed
  have p3: "sorted_wrt (\<lambda>a b. count b \<le> count a) out"
    unfolding out by (rule sorted_by_count_reverse_sorted)
  have p4: "map pattern_type (filter (\<lambda>p. count p = c) out) =
           filter (\<lambda>k. int (length (?occ k)) = c \<and> min_count \<le> c)
             (first_seen (map extract_pattern_key msgs))" for c
  proof -
    have "map pattern_type (filter (\<lambda>p. count p = c) out)
            = map pattern_type (filter (\<lambda>p. count p = c) (map to_failure_pattern ?F))"
      unfolding out by (simp only: sorted_by_count_reverse_stable)
    also have "\<dots> = map fst (filter (\<lambda>item. pattern_data.count (snd item) = c) ?F)"
      by (simp add: filter_map comp_def count_to_failure_pattern
                    pattern_type_to_failure_pattern)
    also have "\<dots> = map fst (filter (\<lambda>item. pattern_data.count (snd item) = c \<and>
                                   min_count \<le> pattern_data.count (snd item)) ?G)"
      by (simp add: conj_commute)
    also have "\<dots> = filter (\<lambda>k. int (length (?occ k)) = c \<and> min_count \<le> c) (map fst ?G)"
    proof (rule map_fst_filter_agree
        [where Q = "\<lambda>d. pattern_data.count d = c \<and> min_count \<le> pattern_data.count d"])
      fix k d assume "(k, d) \<in> set ?G"
      from item [OF this]
      show "(pattern_data.count d = c \<and> min_count \<le> pattern_data.count d)
              = (int (length (?occ k)) = c \<and> min_count \<le> c)"
        by auto
    qed
    also have "map fst ?G = first_seen (map extract_pattern_key msgs)"
      unfolding msgs_def by (rule group_failures_keys)
    finally show ?thesis .
  qed
  from w p2 p3 p4 show ?thesis by blast
qed



theorem mined_patterns_witness:
  "''fetch'' \<noteq> [] \<and>
   get_failure_patterns mining_history ''fetch'' 1 =
     [\<lparr> pattern_type = ''timeout'', count = 2, last_seen = 60,
         error_messages = [''Read timeout'', ''Connection timeout''],
         suggested_fixes = [] \<rparr>,
      \<lparr> pattern_type = ''permission_error'', count = 2, last_seen = 50,
         error_messages = [''permission problem'', ''Permission denied''],
         suggested_fixes = [] \<rparr>,
      \<lparr> pattern_type = ''segfault'', count = 1, last_seen = 70,
         error_messages = [''Segfault''], suggested_fixes = [] \<rparr>] \<and>
   considered_messages (get_executions mining_history (Some ''fetch'') (Some FAILED) 50) =
     [''Segfault'', ''Read timeout'', ''permission problem'', ''Permission denied'',
      ''Connection timeout''] \<and>
   (\<exists>recent.
      mset recent = mset (filter (\<lambda>r. workflow_name r = ''fetch'' \<and> status r = FAILED)
                            mining_history) \<and>
      sorted_wrt (\<lambda>a b. started_at b \<le> started_at a) recent \<and>
      get_executions mining_history (Some ''fetch'') (Some FAILED) 50 = take 50 recent) \<and>
   sorted_wrt (\<lambda>a b. count b \<le> count a) (get_failure_patterns mining_history ''fetch'' 1) \<and>
   map pattern_type
       (filter (\<lambda>p. count p = 2) (get_failure_patterns mining_history ''fetch'' 1)) =
     filter (\<lambda>k. int (length (filter (\<lambda>m. extract_pattern_key m = k)
                 (considered_messages
                    (get_executions mining_history (Some ''fetch'') (Some FAILED) 50)))) = 2 \<and>
                 (1::int) \<le> 2)
       (first_seen (map extract_pattern_key
          (considered_messages
             (get_executions mining_history (Some ''fetch'') (Some FAILED) 50))))"
proof -
  have h: "''fetch'' \<noteq> []" by simp
  have e1: "get_failure_patterns mining_history ''fetch'' 1 =
     [\<lparr> pattern_type = ''timeout'', count = 2, last_seen = 60,
         error_messages = [''Read timeout'', ''Connection timeout''],
         suggested_fixes = [] \<rparr>,
      \<lparr> pattern_type = ''permission_error'', count = 2, last_seen = 50,
         error_messages = [''permission problem'', ''Permission denied''],
         suggested_fixes = [] \<rparr>,
      \<lparr> pattern_type = ''segfault'', count = 1, last_seen = 70,
         error_messages = [''Segfault''], suggested_fixes = [] \<rparr>]"
    by code_simp
  have e2: "considered_messages
              (get_executions mining_history (Some ''fetch'') (Some FAILED) 50) =
     [''Segfault'', ''Read timeout'', ''permission problem'', ''Permission denied'',
      ''Connection timeout'']"
    by code_simp
  note t = mined_patterns [OF h, of mining_history 1]
  from t have c1: "\<exists>recent.
      mset recent = mset (filter (\<lambda>r. workflow_name r = ''fetch'' \<and> status r = FAILED)
                            mining_history) \<and>
      sorted_wrt (\<lambda>a b. started_at b \<le> started_at a) recent \<and>
      get_executions mining_history (Some ''fetch'') (Some FAILED) 50 = take 50 recent"
    by (rule conjunct1)
  from t have c3: "sorted_wrt (\<lambda>a b. count b \<le> count a)
                     (get_failure_patterns mining_history ''fetch'' 1)"
    by blast
  from t have c4: "map pattern_type
       (filter (\<lambda>p. count p = 2) (get_failure_patterns mining_history ''fetch'' 1)) =
     filter (\<lambda>k. int (length (filter (\<lambda>m. extract_pattern_key m = k)
                 (considered_messages
                    (get_executions mining_history (Some ''fetch'') (Some FAILED) 50)))) = 2 \<and>
                 (1::int) \<le> 2)
       (first_seen (map extract_pattern_key
          (considered_messages
             (get_executions mining_history (Some ''fetch'') (Some FAILED) 50))))"
    by blast
  from h e1 e2 c1 c3 c4 show ?thesis by (intro conjI)
qed

lemma bash_execute_started:
  assumes "fst (bash_execute self w command wd timeout) \<noteq> []"
  shows "bash_execute self w command wd timeout =
     (case spawn w of
        Raises e \<Rightarrow>
          (SpawnShell command # fst (except_clauses ''Command timed out after '' w None e),
           snd (except_clauses ''Command timed out after '' w None e))
      | Returns u \<Rightarrow>
          (case communicate w of
             Completed returncode out err \<Rightarrow>
               ([SpawnShell command, Communicate],
                Inr \<lparr> success = (returncode = 0),
                      output' = Some out,
                      error = (if returncode \<noteq> 0 then Some err else None),
                      data = Some [(''exit_code'', IntV returncode),
                                   (''command'', StrV command)],
                      duration = Some (time_end w - time_start w) \<rparr>)
           | TimedOut \<Rightarrow>
               ([SpawnShell command, Communicate]
                  @ fst (except_clauses ''Command timed out after '' w
                           (Some (timeout_or timeout (BashExecutor.default_timeout self)))
                           (PyTimeoutError [])),
                snd (except_clauses ''Command timed out after '' w
                       (Some (timeout_or timeout (BashExecutor.default_timeout self)))
                       (PyTimeoutError [])))
           | CommRaises e \<Rightarrow>
               ([SpawnShell command, Communicate]
                  @ fst (except_clauses ''Command timed out after '' w
                           (Some (timeout_or timeout (BashExecutor.default_timeout self))) e),
                snd (except_clauses ''Command timed out after '' w
                       (Some (timeout_or timeout (BashExecutor.default_timeout self))) e))))"
proof -
  obtain al m where g: "is_command_allowed self command = (al, m)"
    by (cases "is_command_allowed self command")
  from assms g show ?thesis
    by (auto simp: bash_execute_def Let_def
             split: if_splits option.splits outcome.splits communicate_outcome.splits
                    prod.splits)
qed

lemma python_run_script_eq:
  "python_run_script self w p timeout =
     (case spawn w of
        Raises e \<Rightarrow>
          (SpawnExec p # fst (except_clauses ''Code execution timed out after '' w None e),
           snd (except_clauses ''Code execution timed out after '' w None e))
      | Returns u \<Rightarrow>
          (case communicate w of
             Completed returncode out err \<Rightarrow>
               ([SpawnExec p, Communicate],
                Inr \<lparr> success = (returncode = 0),
                      output' = Some out,
                      error = (if returncode \<noteq> 0 then Some err else None),
                      data = Some [(''exit_code'', IntV returncode)],
                      duration = Some (time_end w - time_start w) \<rparr>)
           | TimedOut \<Rightarrow>
               ([SpawnExec p, Communicate]
                  @ fst (except_clauses ''Code execution timed out after '' w
                           (Some (timeout_or timeout (default_timeout self)))
                           (PyTimeoutError [])),
                snd (except_clauses ''Code execution timed out after '' w
                       (Some (timeout_or timeout (default_timeout self)))
                       (PyTimeoutError [])))
           | CommRaises e \<Rightarrow>
               ([SpawnExec p, Communicate]
                  @ fst (except_clauses ''Code execution timed out after '' w
                           (Some (timeout_or timeout (default_timeout self))) e),
                snd (except_clauses ''Code execution timed out after '' w
                       (Some (timeout_or timeout (default_timeout self))) e))))"
  by (simp add: python_run_script_def Let_def
           split: outcome.splits communicate_outcome.splits prod.splits)

section \<open>The fault boundary\<close>

lemma except_clauses_Inl_cases:
  assumes "except_clauses label w tv e = (acts, Inl x)"
  shows "(x = Hangs \<and> wait w = None \<and> tv \<noteq> None \<and> (\<exists>m. e = PyTimeoutError m)) \<or>
         (x = Raised (PyException unbound_timeout_val) \<and> tv = None
            \<and> (\<exists>m. e = PyTimeoutError m)) \<or>
         (x = Raised e \<and> \<not> is_Exception e)"
  using assms
  by (auto simp: except_clauses_def kill_process_def is_Exception_def Let_def
           split: py_exc.splits option.splits outcome.splits if_splits)

lemma map_of_Some_snd: "map_of xs k = Some y \<Longrightarrow> y \<in> snd ` set xs"
  by (force dest: map_of_SomeD)

lemma bash_execute_Inl_cases:
  assumes "bash_execute self w command wd timeout = (acts, Inl x)"
  shows "(x = Hangs \<and> wait w = None) \<or>
         (\<exists>e. x = Raised e \<and>
              (is_Exception e \<or> e \<in> snd ` set (failing_dirs w)
                 \<or> e \<in> set (raises_of_outcome (spawn w))
                 \<or> e \<in> set (raises_of_communicate (communicate w))))"
proof -
  obtain al m where g: "is_command_allowed self command = (al, m)"
    by (cases "is_command_allowed self command")
  have ec: "(x = Hangs \<and> wait w = None) \<or> (\<exists>e'. x = Raised e' \<and> (is_Exception e' \<or> e' = e))"
    if "except_clauses ''Command timed out after '' w tv e = (a, Inl x)" for tv e a
    using except_clauses_Inl_cases [OF that] by (auto simp: is_Exception_def)
  show ?thesis
  proof (cases "spawn w")
    case (Raises e)
    with assms g ec [of None e] show ?thesis
      by (auto simp: bash_execute_def Let_def raises_of_outcome_def failure_result_def
               split: if_splits option.splits prod.splits dest: map_of_Some_snd)
  next
    case (Returns u)
    show ?thesis
    proof (cases "communicate w")
      case (Completed rc out err)
      with Returns assms g show ?thesis
        by (auto simp: bash_execute_def Let_def failure_result_def
                 split: if_splits option.splits dest: map_of_Some_snd)
    next
      case TimedOut
      with Returns assms g
        ec [of "Some (timeout_or timeout (BashExecutor.default_timeout self))"
               "PyTimeoutError []"]
      show ?thesis
        by (auto simp: bash_execute_def Let_def failure_result_def is_Exception_def
                 split: if_splits option.splits prod.splits dest: map_of_Some_snd)
    next
      case (CommRaises e)
      with Returns assms g
        ec [of "Some (timeout_or timeout (BashExecutor.default_timeout self))" e]
      show ?thesis
        by (auto simp: bash_execute_def Let_def failure_result_def
                       raises_of_communicate_def
                 split: if_splits option.splits prod.splits dest: map_of_Some_snd)
    qed
  qed
qed

lemma except_clauses_snd_Inl:
  assumes "snd (except_clauses label w tv e) = Inl x"
  shows "(x = Hangs \<and> wait w = None) \<or> (\<exists>e'. x = Raised e' \<and> (is_Exception e' \<or> e' = e))"
  using except_clauses_Inl_cases [of label w tv e "fst (except_clauses label w tv e)" x] assms
  by (auto simp: is_Exception_def prod_eq_iff)

lemma except_clauses_no_Spawn:
  "SpawnShell c \<notin> set (fst (except_clauses label w tv e))"
  "SpawnExec p \<notin> set (fst (except_clauses label w tv e))"
  by (auto simp: except_clauses_def kill_process_def Let_def
           split: py_exc.splits option.splits outcome.splits prod.splits if_splits)

lemma except_clauses_PyException:
  "except_clauses label w tv (PyException msg) =
     ([], Inr (failure_result (''Execution error: '' @ msg) (time_end w - time_start w)))"
  by (simp add: except_clauses_def)

lemma except_clauses_PyBaseException:
  "except_clauses label w tv (PyBaseException msg) = ([], Inl (Raised (PyBaseException msg)))"
  by (simp add: except_clauses_def)

lemma except_clauses_unbound:
  "except_clauses label w None (PyTimeoutError msg) =
     ([], Inl (Raised (PyException unbound_timeout_val)))"
  by (simp add: except_clauses_def)

lemma except_clauses_PyTimeoutError:
  assumes "wait w \<noteq> None"
  shows "snd (except_clauses label w (Some tv) (PyTimeoutError msg)) =
           Inr (failure_result (label @ str_of_int tv @ '' seconds'')
                  (time_end w - time_start w))"
  using assms
  by (auto simp: except_clauses_def kill_process_def split: outcome.splits)

lemma python_run_script_Inl_cases:
  assumes "python_run_script self w p timeout = (acts, Inl x)"
  shows "(x = Hangs \<and> wait w = None) \<or>
         (\<exists>e. x = Raised e \<and>
              (is_Exception e \<or> e \<in> set (raises_of_outcome (spawn w))
                 \<or> e \<in> set (raises_of_communicate (communicate w))))"
proof (cases "spawn w")
  case (Raises e)
  with assms have "snd (except_clauses ''Code execution timed out after '' w None e) = Inl x"
    by (simp add: python_run_script_eq)
  from except_clauses_snd_Inl [OF this] Raises show ?thesis
    by (auto simp: raises_of_outcome_def)
next
  case (Returns u)
  show ?thesis
  proof (cases "communicate w")
    case (Completed rc out err)
    with Returns assms show ?thesis by (simp add: python_run_script_eq)
  next
    case TimedOut
    with Returns assms
    have "snd (except_clauses ''Code execution timed out after '' w
                 (Some (timeout_or timeout (default_timeout self))) (PyTimeoutError []))
            = Inl x"
      by (simp add: python_run_script_eq)
    from except_clauses_snd_Inl [OF this] show ?thesis by (auto simp: is_Exception_def)
  next
    case (CommRaises e)
    with Returns assms
    have "snd (except_clauses ''Code execution timed out after '' w
                 (Some (timeout_or timeout (default_timeout self))) e) = Inl x"
      by (simp add: python_run_script_eq)
    from except_clauses_snd_Inl [OF this] CommRaises show ?thesis
      by (auto simp: raises_of_communicate_def)
  qed
qed

lemma python_execute_None_Inl_cases:
  assumes "python_execute self w code timeout None wd = (acts, Inl x)"
  shows "(x = Hangs \<and> wait w = None) \<or>
         (\<exists>e. x = Raised e \<and>
              (is_Exception e \<or> e \<in> set (raises_of_outcome (mkstemp w))
                 \<or> e \<in> set (raises_of_outcome (spawn w))
                 \<or> e \<in> set (raises_of_communicate (communicate w))))"
proof (cases "mkstemp w")
  case (Raises e)
  with assms show ?thesis by (auto simp: python_execute_def raises_of_outcome_def)
next
  case (Returns p)
  obtain ra rr where run: "python_run_script self w p timeout = (ra, rr)"
    by (cases "python_run_script self w p timeout")
  from python_execute_None_run [OF Returns run] assms have "rr = Inl x"
    by (auto split: if_splits)
  with run python_run_script_Inl_cases [of self w p timeout ra x] show ?thesis by blast
qed

lemma raises_only_ExceptionD:
  assumes "raises_only_Exception w"
  shows "\<forall>e \<in> snd ` set (failing_dirs w). is_Exception e"
    and "\<forall>e \<in> set (raises_of_outcome (spawn w)). is_Exception e"
    and "\<forall>e \<in> set (raises_of_communicate (communicate w)). is_Exception e"
    and "\<forall>e \<in> set (raises_of_outcome (mkstemp w)). is_Exception e"
  using assms by (auto simp: raises_only_Exception_def list_all_iff)

lemma execute_workflow_BASH:
  "execute_workflow agent w name code BASH timeout wd =
     (fst (bash_execute (bash_executor agent) w code wd timeout),
      case snd (bash_execute (bash_executor agent) w code wd timeout) of
        Inr result \<Rightarrow> Inr (to_execution_result w name result)
      | Inl Hangs \<Rightarrow> Inl Hangs
      | Inl (Raised e) \<Rightarrow>
          if is_Exception e
          then Inr (failed_execution w name (''Execution error: '' @ str_of_exc e))
          else Inl (Raised e))"
  by (simp add: execute_workflow_def split: prod.splits sum.splits no_result.splits)

lemma execute_workflow_PYTHON:
  "execute_workflow agent w name code PYTHON timeout wd =
     (fst (python_execute (python_executor agent) w code timeout None wd),
      case snd (python_execute (python_executor agent) w code timeout None wd) of
        Inr result \<Rightarrow> Inr (to_execution_result w name result)
      | Inl Hangs \<Rightarrow> Inl Hangs
      | Inl (Raised e) \<Rightarrow>
          if is_Exception e
          then Inr (failed_execution w name (''Execution error: '' @ str_of_exc e))
          else Inl (Raised e))"
  by (simp add: execute_workflow_def split: prod.splits sum.splits no_result.splits)

lemma execute_workflow_only_Exception:
  assumes "raises_only_Exception w" and "wait w \<noteq> None"
  shows "\<exists>acts res. execute_workflow agent w name code language timeout wd = (acts, Inr res)"
proof (cases language)
  case BASH
  let ?be = "bash_execute (bash_executor agent) w code wd timeout"
  show ?thesis
  proof (cases "snd ?be")
    case (Inl x)
    then have "?be = (fst ?be, Inl x)" by (simp add: prod_eq_iff)
    from bash_execute_Inl_cases [OF this] assms(2) raises_only_ExceptionD [OF assms(1)]
    obtain e where "x = Raised e" and "is_Exception e" by blast
    with Inl BASH show ?thesis by (simp add: execute_workflow_BASH)
  next
    case (Inr tr)
    with BASH show ?thesis by (simp add: execute_workflow_BASH)
  qed
next
  case PYTHON
  let ?pe = "python_execute (python_executor agent) w code timeout None wd"
  show ?thesis
  proof (cases "snd ?pe")
    case (Inl x)
    then have "?pe = (fst ?pe, Inl x)" by (simp add: prod_eq_iff)
    from python_execute_None_Inl_cases [OF this] assms(2) raises_only_ExceptionD [OF assms(1)]
    obtain e where "x = Raised e" and "is_Exception e" by blast
    with Inl PYTHON show ?thesis by (simp add: execute_workflow_PYTHON)
  next
    case (Inr tr)
    with PYTHON show ?thesis by (simp add: execute_workflow_PYTHON)
  qed
next
  case (Unrecognized l)
  then show ?thesis by (simp add: execute_workflow_def)
qed

lemma bash_execute_converts:
  "(spawn w = Raises (PyException msg) \<and>
      SpawnShell command \<in> set (fst (bash_execute self w command wd timeout))
     \<longrightarrow> snd (bash_execute self w command wd timeout)
           = Inr (failure_result (''Execution error: '' @ msg) (time_end w - time_start w))) \<and>
   (communicate w = CommRaises (PyException msg) \<and>
      Communicate \<in> set (fst (bash_execute self w command wd timeout))
     \<longrightarrow> snd (bash_execute self w command wd timeout)
           = Inr (failure_result (''Execution error: '' @ msg) (time_end w - time_start w))) \<and>
   (communicate w = CommRaises (PyTimeoutError msg) \<and> wait w \<noteq> None \<and>
      Communicate \<in> set (fst (bash_execute self w command wd timeout))
     \<longrightarrow> snd (bash_execute self w command wd timeout)
           = Inr (failure_result
                    (''Command timed out after ''
                       @ str_of_int (timeout_or timeout (BashExecutor.default_timeout self))
                       @ '' seconds'')
                    (time_end w - time_start w)))"
proof (intro conjI impI)
  assume a: "spawn w = Raises (PyException msg) \<and>
      SpawnShell command \<in> set (fst (bash_execute self w command wd timeout))"
  then have "fst (bash_execute self w command wd timeout) \<noteq> []" by auto
  from bash_execute_started [OF this] a
  show "snd (bash_execute self w command wd timeout)
           = Inr (failure_result (''Execution error: '' @ msg) (time_end w - time_start w))"
    by (simp add: except_clauses_PyException)
next
  assume a: "communicate w = CommRaises (PyException msg) \<and>
      Communicate \<in> set (fst (bash_execute self w command wd timeout))"
  then have ne: "fst (bash_execute self w command wd timeout) \<noteq> []" by auto
  show "snd (bash_execute self w command wd timeout)
           = Inr (failure_result (''Execution error: '' @ msg) (time_end w - time_start w))"
  proof (cases "spawn w")
    case (Raises e)
    with bash_execute_started [OF ne] a
      except_clauses_no_Communicate [of "''Command timed out after ''" w None e]
    show ?thesis by simp
  next
    case (Returns u)
    with bash_execute_started [OF ne] a show ?thesis
      by (simp add: except_clauses_PyException)
  qed
next
  assume a: "communicate w = CommRaises (PyTimeoutError msg) \<and> wait w \<noteq> None \<and>
      Communicate \<in> set (fst (bash_execute self w command wd timeout))"
  then have ne: "fst (bash_execute self w command wd timeout) \<noteq> []" by auto
  show "snd (bash_execute self w command wd timeout)
           = Inr (failure_result
                    (''Command timed out after ''
                       @ str_of_int (timeout_or timeout (BashExecutor.default_timeout self))
                       @ '' seconds'')
                    (time_end w - time_start w))"
  proof (cases "spawn w")
    case (Raises e)
    with bash_execute_started [OF ne] a
      except_clauses_no_Communicate [of "''Command timed out after ''" w None e]
    show ?thesis by simp
  next
    case (Returns u)
    with bash_execute_started [OF ne] a show ?thesis
      by (simp add: except_clauses_PyTimeoutError)
  qed
qed

lemma python_run_script_converts:
  "(spawn w = Raises (PyException msg)
     \<longrightarrow> snd (python_run_script self w p timeout)
           = Inr (failure_result (''Execution error: '' @ msg) (time_end w - time_start w))) \<and>
   (communicate w = CommRaises (PyException msg) \<and>
      Communicate \<in> set (fst (python_run_script self w p timeout))
     \<longrightarrow> snd (python_run_script self w p timeout)
           = Inr (failure_result (''Execution error: '' @ msg) (time_end w - time_start w))) \<and>
   (communicate w = CommRaises (PyTimeoutError msg) \<and> wait w \<noteq> None \<and>
      Communicate \<in> set (fst (python_run_script self w p timeout))
     \<longrightarrow> snd (python_run_script self w p timeout)
           = Inr (failure_result
                    (''Code execution timed out after ''
                       @ str_of_int (timeout_or timeout (default_timeout self))
                       @ '' seconds'')
                    (time_end w - time_start w)))"
proof (intro conjI impI)
  assume "spawn w = Raises (PyException msg)"
  then show "snd (python_run_script self w p timeout)
           = Inr (failure_result (''Execution error: '' @ msg) (time_end w - time_start w))"
    by (simp add: python_run_script_eq except_clauses_PyException)
next
  assume a: "communicate w = CommRaises (PyException msg) \<and>
      Communicate \<in> set (fst (python_run_script self w p timeout))"
  show "snd (python_run_script self w p timeout)
           = Inr (failure_result (''Execution error: '' @ msg) (time_end w - time_start w))"
  proof (cases "spawn w")
    case (Raises e)
    with a except_clauses_no_Communicate [of "''Code execution timed out after ''" w None e]
    show ?thesis by (simp add: python_run_script_eq)
  next
    case (Returns u)
    with a show ?thesis by (simp add: python_run_script_eq except_clauses_PyException)
  qed
next
  assume a: "communicate w = CommRaises (PyTimeoutError msg) \<and> wait w \<noteq> None \<and>
      Communicate \<in> set (fst (python_run_script self w p timeout))"
  show "snd (python_run_script self w p timeout)
           = Inr (failure_result
                    (''Code execution timed out after ''
                       @ str_of_int (timeout_or timeout (default_timeout self))
                       @ '' seconds'')
                    (time_end w - time_start w))"
  proof (cases "spawn w")
    case (Raises e)
    with a except_clauses_no_Communicate [of "''Code execution timed out after ''" w None e]
    show ?thesis by (simp add: python_run_script_eq)
  next
    case (Returns u)
    with a show ?thesis by (simp add: python_run_script_eq except_clauses_PyTimeoutError)
  qed
qed

text \<open>An exception outside \<open>Exception\<close> raised by the spawn or by \<open>communicate\<close>.\<close>

lemma bash_execute_BaseException:
  assumes "(spawn w = Raises (PyBaseException msg) \<and>
              SpawnShell command \<in> set (fst (bash_execute self w command wd timeout))) \<or>
           (communicate w = CommRaises (PyBaseException msg) \<and>
              Communicate \<in> set (fst (bash_execute self w command wd timeout)))"
  shows "snd (bash_execute self w command wd timeout) = Inl (Raised (PyBaseException msg))"
proof -
  from assms have ne: "fst (bash_execute self w command wd timeout) \<noteq> []" by auto
  show ?thesis
  proof (cases "spawn w")
    case (Raises e)
    with bash_execute_started [OF ne] assms
      except_clauses_no_Communicate [of "''Command timed out after ''" w None e]
    show ?thesis by (auto simp: except_clauses_PyBaseException)
  next
    case (Returns u)
    with bash_execute_started [OF ne] assms show ?thesis
      by (auto simp: except_clauses_PyBaseException)
  qed
qed

lemma python_run_script_BaseException:
  assumes "spawn w = Raises (PyBaseException msg) \<or>
           (communicate w = CommRaises (PyBaseException msg) \<and>
              Communicate \<in> set (fst (python_run_script self w p timeout)))"
  shows "snd (python_run_script self w p timeout) = Inl (Raised (PyBaseException msg))"
proof (cases "spawn w")
  case (Raises e)
  with assms except_clauses_no_Communicate [of "''Code execution timed out after ''" w None e]
  show ?thesis by (auto simp: python_run_script_eq except_clauses_PyBaseException)
next
  case (Returns u)
  with assms show ?thesis
    by (auto simp: python_run_script_eq except_clauses_PyBaseException)
qed

lemma python_execute_None_BaseException:
  assumes "(spawn w = Raises (PyBaseException msg) \<and>
              (\<exists>p. SpawnExec p \<in> set (fst (python_execute self w code timeout None wd)))) \<or>
           (communicate w = CommRaises (PyBaseException msg) \<and>
              Communicate \<in> set (fst (python_execute self w code timeout None wd)))"
  shows "snd (python_execute self w code timeout None wd) = Inl (Raised (PyBaseException msg))"
proof (cases "mkstemp w")
  case (Raises e)
  with assms show ?thesis by (auto simp: python_execute_def)
next
  case (Returns p)
  obtain ra rr where run: "python_run_script self w p timeout = (ra, rr)"
    by (cases "python_run_script self w p timeout")
  note pe = python_execute_None_run [OF Returns run, of code wd]
  from assms pe
  have "spawn w = Raises (PyBaseException msg) \<or>
        (communicate w = CommRaises (PyBaseException msg) \<and> Communicate \<in> set ra)"
    by (auto split: if_splits)
  with run python_run_script_BaseException [of w msg self p timeout]
  have "rr = Inl (Raised (PyBaseException msg))" by auto
  with pe show ?thesis by simp
qed

lemma execute_workflow_BaseException:
  assumes "(spawn w = Raises (PyBaseException msg) \<and>
              (SpawnShell code
                 \<in> set (fst (execute_workflow agent w name code language timeout wd)) \<or>
               (\<exists>p. SpawnExec p
                 \<in> set (fst (execute_workflow agent w name code language timeout wd))))) \<or>
           (communicate w = CommRaises (PyBaseException msg) \<and>
              Communicate \<in> set (fst (execute_workflow agent w name code language timeout wd)))"
  shows "snd (execute_workflow agent w name code language timeout wd)
           = Inl (Raised (PyBaseException msg))"
proof (cases language)
  case BASH
  let ?be = "bash_execute (bash_executor agent) w code wd timeout"
  have nx: "SpawnExec p \<notin> set (fst ?be)" for p
  proof (cases "fst ?be = []")
    case True
    then show ?thesis by simp
  next
    case False
    from bash_execute_started [OF this]
    show ?thesis
      by (simp add: except_clauses_no_Spawn
               split: outcome.splits communicate_outcome.splits)
  qed
  from assms BASH nx
  have "(spawn w = Raises (PyBaseException msg) \<and> SpawnShell code \<in> set (fst ?be)) \<or>
        (communicate w = CommRaises (PyBaseException msg) \<and> Communicate \<in> set (fst ?be))"
    by (auto simp: execute_workflow_BASH)
  from bash_execute_BaseException [OF this] BASH show ?thesis
    by (simp add: execute_workflow_BASH is_Exception_def)
next
  case PYTHON
  let ?pe = "python_execute (python_executor agent) w code timeout None wd"
  have ns: "SpawnShell c \<notin> set (fst ?pe)" for c
  proof (cases "mkstemp w")
    case (Raises e)
    then show ?thesis by (simp add: python_execute_def)
  next
    case (Returns p)
    obtain ra rr where run: "python_run_script (python_executor agent) w p timeout = (ra, rr)"
      by (cases "python_run_script (python_executor agent) w p timeout")
    have "SpawnShell c \<notin> set (fst (python_run_script (python_executor agent) w p timeout))"
      by (simp add: python_run_script_eq except_clauses_no_Spawn
               split: outcome.splits communicate_outcome.splits)
    with run have "SpawnShell c \<notin> set ra" by simp
    with python_execute_None_run [OF Returns run, of code wd] show ?thesis by simp
  qed
  from assms PYTHON ns
  have "(spawn w = Raises (PyBaseException msg) \<and> (\<exists>p. SpawnExec p \<in> set (fst ?pe))) \<or>
        (communicate w = CommRaises (PyBaseException msg) \<and> Communicate \<in> set (fst ?pe))"
    by (auto simp: execute_workflow_PYTHON)
  from python_execute_None_BaseException [OF this] PYTHON show ?thesis
    by (simp add: execute_workflow_PYTHON is_Exception_def)
next
  case (Unrecognized l)
  with assms show ?thesis by (simp add: execute_workflow_def)
qed


text \<open>
  A \<open>TimeoutError\<close> raised by the spawn itself (the operating system's \<open>ETIMEDOUT\<close>)
  enters the handler of \<open>asyncio.TimeoutError\<close> before \<open>timeout_val\<close> is bound: the
  runner does not build a result, an \<open>UnboundLocalError\<close> leaves it, and the
  coordinator reports that error instead of the timeout.
\<close>

lemma spawn_TimeoutError_leaves_runner:
  "bash_execute (BashExecutor_init 300 None None)
       (example_world\<lparr>spawn := Raises (PyTimeoutError ''timed out'')\<rparr>) ''ls'' None None
     = ([SpawnShell ''ls''], Inl (Raised (PyException unbound_timeout_val))) \<and>
   snd (execute_workflow (ExecutorAgent_init ''python3'')
          (example_world\<lparr>spawn := Raises (PyTimeoutError ''timed out'')\<rparr>)
          ''hello'' ''ls'' BASH None None)
     = Inr (failed_execution example_world ''hello''
              (''Execution error: '' @ unbound_timeout_val))"
  by (simp add: execute_workflow_def bash_execute_def ExecutorAgent_init_def
                example_world_def is_command_allowed_def BashExecutor_init_def
                default_denied_def except_clauses_def is_Exception_def str_of_exc_def
                failed_execution_def)

text \<open>
  C5, as stated, lets no fault reach the caller.  \<open>except Exception\<close> does not catch the
  exceptions outside \<open>Exception\<close>: when the task is cancelled while the shell runner
  awaits \<open>communicate\<close> (\<open>asyncio.CancelledError\<close>, whose \<open>str\<close> is empty), the exception
  passes the runner and the coordinator and reaches the caller.
\<close>

theorem fault_boundary_counterexample:
  "execute_workflow (ExecutorAgent_init ''python3'')
       (example_world\<lparr>communicate := CommRaises (PyBaseException [])\<rparr>)
       ''hello'' ''sleep 1'' BASH None None
     = ([SpawnShell ''sleep 1'', Communicate], Inl (Raised (PyBaseException [])))"
  by (simp add: execute_workflow_def bash_execute_def ExecutorAgent_init_def
                example_world_def is_command_allowed_def BashExecutor_init_def
                default_denied_def except_clauses_def is_Exception_def)

text \<open>
  C5, amended.  When every exception raised by the calls of a run is an \<open>Exception\<close> and
  the await of \<open>wait\<close> returns, \<open>execute_workflow\<close> returns an \<open>ExecutionResult\<close>.  An
  \<open>Exception\<close> that leaves a runner (the check of the working directory and the writing
  of the temporary file stand outside the \<open>try\<close>) becomes a \<open>FAILED\<close> result whose error
  message is \<open>Execution error:\<close> followed by the exception's message.  In both runners
  an \<open>Exception\<close> other than \<open>TimeoutError\<close> raised by the spawn or by \<open>communicate\<close>
  becomes a \<open>ToolResult\<close> with \<open>success = False\<close> and that same message, and a
  \<open>TimeoutError\<close> raised by \<open>communicate\<close> becomes the \<open>ToolResult\<close> of a timeout when
  the await of \<open>wait\<close> returns.  An exception outside \<open>Exception\<close> raised by the spawn or
  by \<open>communicate\<close> leaves the runner and the coordinator unchanged.
\<close>

theorem fault_boundary:
  "(raises_only_Exception w \<and> wait w \<noteq> None \<longrightarrow>
      (\<exists>acts res. execute_workflow agent w name code language timeout wd = (acts, Inr res))) \<and>
   (snd (bash_execute (bash_executor agent) w code wd timeout) = Inl (Raised e) \<and>
      is_Exception e \<longrightarrow>
      (\<exists>res. snd (execute_workflow agent w name code BASH timeout wd) = Inr res \<and>
             status res = FAILED \<and>
             error_message res = Some (''Execution error: '' @ str_of_exc e))) \<and>
   (snd (python_execute (python_executor agent) w code timeout None wd) = Inl (Raised e) \<and>
      is_Exception e \<longrightarrow>
      (\<exists>res. snd (execute_workflow agent w name code PYTHON timeout wd) = Inr res \<and>
             status res = FAILED \<and>
             error_message res = Some (''Execution error: '' @ str_of_exc e))) \<and>
   (spawn w = Raises (PyException msg) \<and>
      SpawnShell command \<in> set (fst (bash_execute self w command wd timeout)) \<longrightarrow>
      (\<exists>tr. snd (bash_execute self w command wd timeout) = Inr tr \<and>
            success tr = False \<and> error tr = Some (''Execution error: '' @ msg))) \<and>
   (communicate w = CommRaises (PyException msg) \<and>
      Communicate \<in> set (fst (bash_execute self w command wd timeout)) \<longrightarrow>
      (\<exists>tr. snd (bash_execute self w command wd timeout) = Inr tr \<and>
            success tr = False \<and> error tr = Some (''Execution error: '' @ msg))) \<and>
   (communicate w = CommRaises (PyTimeoutError msg) \<and> wait w \<noteq> None \<and>
      Communicate \<in> set (fst (bash_execute self w command wd timeout)) \<longrightarrow>
      (\<exists>tr. snd (bash_execute self w command wd timeout) = Inr tr \<and>
            success tr = False \<and>
            error tr = Some (''Command timed out after ''
                       @ str_of_int (timeout_or timeout (BashExecutor.default_timeout self))
                       @ '' seconds''))) \<and>
   (spawn w = Raises (PyException msg) \<and>
      SpawnExec p \<in> set (fst (python_run_script pself w p timeout)) \<longrightarrow>
      (\<exists>tr. snd (python_run_script pself w p timeout) = Inr tr \<and>
            success tr = False \<and> error tr = Some (''Execution error: '' @ msg))) \<and>
   (communicate w = CommRaises (PyException msg) \<and>
      Communicate \<in> set (fst (python_run_script pself w p timeout)) \<longrightarrow>
      (\<exists>tr. snd (python_run_script pself w p timeout) = Inr tr \<and>
            success tr = False \<and> error tr = Some (''Execution error: '' @ msg))) \<and>
   (communicate w = CommRaises (PyTimeoutError msg) \<and> wait w \<noteq> None \<and>
      Communicate \<in> set (fst (python_run_script pself w p timeout)) \<longrightarrow>
      (\<exists>tr. snd (python_run_script pself w p timeout) = Inr tr \<and>
            success tr = False \<and>
            error tr = Some (''Code execution timed out after ''
                       @ str_of_int (timeout_or timeout (default_timeout pself))
                       @ '' seconds''))) \<and>
   ((spawn w = Raises (PyBaseException msg) \<and>
       (SpawnShell code
          \<in> set (fst (execute_workflow agent w name code language timeout wd)) \<or>
        (\<exists>p. SpawnExec p
          \<in> set (fst (execute_workflow agent w name code language timeout wd))))) \<or>
    (communicate w = CommRaises (PyBaseException msg) \<and>
       Communicate \<in> set (fst (execute_workflow agent w name code language timeout wd)))
    \<longrightarrow> snd (execute_workflow agent w name code language timeout wd)
          = Inl (Raised (PyBaseException msg)))"
proof -
  have c1: "raises_only_Exception w \<and> wait w \<noteq> None \<longrightarrow>
      (\<exists>acts res. execute_workflow agent w name code language timeout wd = (acts, Inr res))"
    using execute_workflow_only_Exception by blast
  have c2: "snd (bash_execute (bash_executor agent) w code wd timeout) = Inl (Raised e) \<and>
      is_Exception e \<longrightarrow>
      (\<exists>res. snd (execute_workflow agent w name code BASH timeout wd) = Inr res \<and>
             status res = FAILED \<and>
             error_message res = Some (''Execution error: '' @ str_of_exc e))"
    by (simp add: execute_workflow_BASH failed_execution_def)
  have c3: "snd (python_execute (python_executor agent) w code timeout None wd)
               = Inl (Raised e) \<and> is_Exception e \<longrightarrow>
      (\<exists>res. snd (execute_workflow agent w name code PYTHON timeout wd) = Inr res \<and>
             status res = FAILED \<and>
             error_message res = Some (''Execution error: '' @ str_of_exc e))"
    by (simp add: execute_workflow_PYTHON failed_execution_def)
  note b = bash_execute_converts [of w msg command self wd timeout]
  note p = python_run_script_converts [of w msg pself p timeout]
  have c4: "spawn w = Raises (PyException msg) \<and>
      SpawnShell command \<in> set (fst (bash_execute self w command wd timeout)) \<longrightarrow>
      (\<exists>tr. snd (bash_execute self w command wd timeout) = Inr tr \<and>
            success tr = False \<and> error tr = Some (''Execution error: '' @ msg))"
    using b by (simp add: failure_result_def)
  have c5: "communicate w = CommRaises (PyException msg) \<and>
      Communicate \<in> set (fst (bash_execute self w command wd timeout)) \<longrightarrow>
      (\<exists>tr. snd (bash_execute self w command wd timeout) = Inr tr \<and>
            success tr = False \<and> error tr = Some (''Execution error: '' @ msg))"
    using b by (simp add: failure_result_def)
  have c6: "communicate w = CommRaises (PyTimeoutError msg) \<and> wait w \<noteq> None \<and>
      Communicate \<in> set (fst (bash_execute self w command wd timeout)) \<longrightarrow>
      (\<exists>tr. snd (bash_execute self w command wd timeout) = Inr tr \<and>
            success tr = False \<and>
            error tr = Some (''Command timed out after ''
                       @ str_of_int (timeout_or timeout (BashExecutor.default_timeout self))
                       @ '' seconds''))"
    using b by (simp add: failure_result_def)
  have c7: "spawn w = Raises (PyException msg) \<and>
      SpawnExec p \<in> set (fst (python_run_script pself w p timeout)) \<longrightarrow>
      (\<exists>tr. snd (python_run_script pself w p timeout) = Inr tr \<and>
            success tr = False \<and> error tr = Some (''Execution error: '' @ msg))"
    using p by (simp add: failure_result_def)
  have c8: "communicate w = CommRaises (PyException msg) \<and>
      Communicate \<in> set (fst (python_run_script pself w p timeout)) \<longrightarrow>
      (\<exists>tr. snd (python_run_script pself w p timeout) = Inr tr \<and>
            success tr = False \<and> error tr = Some (''Execution error: '' @ msg))"
    using p by (simp add: failure_result_def)
  have c9: "communicate w = CommRaises (PyTimeoutError msg) \<and> wait w \<noteq> None \<and>
      Communicate \<in> set (fst (python_run_script pself w p timeout)) \<longrightarrow>
      (\<exists>tr. snd (python_run_script pself w p timeout) = Inr tr \<and>
            success tr = False \<and>
            error tr = Some (''Code execution timed out after ''
                       @ str_of_int (timeout_or timeout (default_timeout pself))
                       @ '' seconds''))"
    using p by (simp add: failure_result_def)
  have c10: "(spawn w = Raises (PyBaseException msg) \<and>
       (SpawnShell code
          \<in> set (fst (execute_workflow agent w name code language timeout wd)) \<or>
        (\<exists>p. SpawnExec p
          \<in> set (fst (execute_workflow agent w name code language timeout wd))))) \<or>
    (communicate w = CommRaises (PyBaseException msg) \<and>
       Communicate \<in> set (fst (execute_workflow agent w name code language timeout wd)))
    \<longrightarrow> snd (execute_workflow agent w name code language timeout wd)
          = Inl (Raised (PyBaseException msg))"
    using execute_workflow_BaseException [of w msg code agent name language timeout wd]
    by blast
  from c1 c2 c3 c4 c5 c6 c7 c8 c9 c10 show ?thesis by (intro conjI)
qed

end
